theory Spec2Isabelle
  imports Complex_Main "HOL-Library.Sublist"
begin

section \<open>JavaScript values as the worker sees them\<close>

text \<open>
  The worker (\<^verbatim>\<open>src/index.js\<close>) reads JSON request bodies, so every value it
  inspects is a JSON value or \<^verbatim>\<open>undefined\<close> (the result of reading an absent
  property). A Number is an IEEE double: a finite double is the real number it denotes
  (\<open>+0\<close> and \<open>-0\<close> are both \<open>Finite 0\<close>: truthiness, \<^verbatim>\<open>>=\<close> and template
  strings do not tell them apart), and the three special values are constructors of their
  own. Strings are byte strings (UTF-8).
\<close>

datatype jsnum = Finite real | PosInf | NegInf | NaN

datatype jsval =
    JUndefined
  | JNull
  | JBool bool
  | JNum jsnum
  | JStr string
  | JArr "jsval list"
  | JObj "(string \<times> jsval) list"

text \<open>The exceptions the program can see; it only ever reads \<^verbatim>\<open>err.message\<close>.\<close>

datatype exn = TypeError string | SyntaxError string | Error string

fun message :: "exn \<Rightarrow> string" where
  "message (TypeError m) = m"
| "message (SyntaxError m) = m"
| "message (Error m) = m"

text \<open>
  The effects that leave the worker, in the order they happen:
  \<^item> \<open>DbRun sql args\<close>: \<^verbatim>\<open>G_DB.prepare(sql).bind(...args).run()\<close>;
  \<^item> \<open>Fetch url body\<close>: \<^verbatim>\<open>fetch(url, {method: "POST", ..., body: JSON.stringify(body)})\<close>;
  \<^item> \<open>ConsoleError text\<close>: \<^verbatim>\<open>console.error(text)\<close>.
\<close>

datatype event =
    DbRun string "jsval list"
  | Fetch string jsval
  | ConsoleError string

text \<open>
  The storage binding \<^verbatim>\<open>env.DB\<close> is opaque: given the effects so far, the statement and
  the bound values, the call returns (\<open>None\<close>) or throws an error with a message.
\<close>

type_synonym d1 = "event list \<Rightarrow> string \<Rightarrow> jsval list \<Rightarrow> string option"

text \<open>
  What the JavaScript runtime supplies and the repository does not define:
  \<^item> \<open>JSON_parse v\<close>: \<^verbatim>\<open>JSON.parse(v)\<close>; \<open>Inl m\<close> is a thrown error with message \<open>m\<close>;
  \<^item> \<open>Number_toString\<close>: the string of a Number in a template literal;
  \<^item> \<open>StringToNumber\<close>: the Number a non-empty string converts to;
  \<^item> \<open>TypeError_message v k\<close>: the message of the TypeError raised by reading property
    \<open>k\<close> of \<open>v\<close> when \<open>v\<close> is \<^verbatim>\<open>null\<close> or \<^verbatim>\<open>undefined\<close>;
  \<^item> \<open>ToPrimitive_message\<close>: the message of the TypeError raised when an object has no
    primitive value;
  \<^item> \<open>global_fetch\<close>: the global \<^verbatim>\<open>fetch\<close>; given the effects so far, the URL and the
    body, it resolves (\<open>None\<close>, whatever the HTTP status) or rejects with a message.
\<close>

record js_runtime =
  JSON_parse :: "jsval \<Rightarrow> string + jsval"
  Number_toString :: "jsnum \<Rightarrow> string"
  StringToNumber :: "string \<Rightarrow> jsnum"
  TypeError_message :: "jsval \<Rightarrow> string \<Rightarrow> string"
  ToPrimitive_message :: string
  global_fetch :: "event list \<Rightarrow> string \<Rightarrow> jsval \<Rightarrow> string option"

subsection \<open>Truthiness, property reads, conversions\<close>

text \<open>\<^verbatim>\<open>!v\<close> is \<open>\<not> truthy v\<close>.\<close>

fun truthy :: "jsval \<Rightarrow> bool" where
  "truthy JUndefined = False"
| "truthy JNull = False"
| "truthy (JBool b) = b"
| "truthy (JNum (Finite x)) = (x \<noteq> 0)"
| "truthy (JNum NaN) = False"
| "truthy (JNum _) = True"
| "truthy (JStr s) = (s \<noteq> [])"
| "truthy (JArr _) = True"
| "truthy (JObj _) = True"

fun nullish :: "jsval \<Rightarrow> bool" where
  "nullish JUndefined = True"
| "nullish JNull = True"
| "nullish _ = False"

text \<open>
  \<open>js_get v k\<close> is \<^verbatim>\<open>v.k\<close> for a base that is not \<^verbatim>\<open>null\<close> or \<^verbatim>\<open>undefined\<close>
  (reading a property of those throws; every caller below checks \<open>nullish\<close> first).
  The program reads only the names service, instance, level, message, payload,
  request_id, data, items and messages: none of them is on a built-in prototype, so the
  read finds an own property of an object and is \<^verbatim>\<open>undefined\<close> on anything else.
\<close>

fun js_get :: "jsval \<Rightarrow> string \<Rightarrow> jsval" where
  "js_get (JObj kvs) k = (case map_of kvs k of None \<Rightarrow> JUndefined | Some v \<Rightarrow> v)"
| "js_get _ k = JUndefined"

fun js_typeof :: "jsval \<Rightarrow> string" where
  "js_typeof JUndefined = ''undefined''"
| "js_typeof JNull = ''object''"
| "js_typeof (JBool _) = ''boolean''"
| "js_typeof (JNum _) = ''number''"
| "js_typeof (JStr _) = ''string''"
| "js_typeof (JArr _) = ''object''"
| "js_typeof (JObj _) = ''object''"

fun isArray :: "jsval \<Rightarrow> bool" where
  "isArray (JArr _) = True"
| "isArray _ = False"

fun join_commas :: "string list \<Rightarrow> string" where
  "join_commas [] = []"
| "join_commas [s] = s"
| "join_commas (s # t # ss) = s @ '','' @ join_commas (t # ss)"

text \<open>
  \<open>js_to_string\<close> is the string a template literal \<^verbatim>\<open>`${v}`\<close> inserts; \<open>None\<close> when
  the conversion throws a TypeError. An array joins its elements with commas (\<^verbatim>\<open>null\<close>
  and \<^verbatim>\<open>undefined\<close> elements as the empty string). A parsed JSON object is
  \<^verbatim>\<open>[object Object]\<close>, unless it has a key \<^verbatim>\<open>toString\<close>: that own property hides
  \<^verbatim>\<open>Object.prototype.toString\<close> and is no function, and \<^verbatim>\<open>valueOf\<close> gives no primitive,
  so the conversion throws.
\<close>

fun js_to_string :: "js_runtime \<Rightarrow> jsval \<Rightarrow> string option" where
  "js_to_string rt JUndefined = Some ''undefined''"
| "js_to_string rt JNull = Some ''null''"
| "js_to_string rt (JBool b) = Some (if b then ''true'' else ''false'')"
| "js_to_string rt (JNum n) = Some (Number_toString rt n)"
| "js_to_string rt (JStr s) = Some s"
| "js_to_string rt (JArr xs) =
     map_option join_commas
       (those (map (\<lambda>x. case x of JUndefined \<Rightarrow> Some [] | JNull \<Rightarrow> Some []
                        | _ \<Rightarrow> js_to_string rt x) xs))"
| "js_to_string rt (JObj kvs) =
     (case map_of kvs ''toString'' of None \<Rightarrow> Some ''[object Object]'' | Some v \<Rightarrow> None)"

text \<open>
  \<open>ToNumber\<close>: the conversion \<^verbatim>\<open>>=\<close> applies to its left operand when the right one is
  a Number; \<open>None\<close> when it throws. The empty string converts to 0; an array or object
  converts through its string.
\<close>

definition string_to_number :: "js_runtime \<Rightarrow> string \<Rightarrow> jsnum" where
  "string_to_number rt s = (if s = [] then Finite 0 else StringToNumber rt s)"

fun ToNumber :: "js_runtime \<Rightarrow> jsval \<Rightarrow> jsnum option" where
  "ToNumber rt JUndefined = Some NaN"
| "ToNumber rt JNull = Some (Finite 0)"
| "ToNumber rt (JBool b) = Some (if b then Finite 1 else Finite 0)"
| "ToNumber rt (JNum n) = Some n"
| "ToNumber rt (JStr s) = Some (string_to_number rt s)"
| "ToNumber rt (JArr xs) = map_option (string_to_number rt) (js_to_string rt (JArr xs))"
| "ToNumber rt (JObj kvs) = map_option (string_to_number rt) (js_to_string rt (JObj kvs))"

fun num_ge :: "jsnum \<Rightarrow> jsnum \<Rightarrow> bool" where
  "num_ge NaN _ = False"
| "num_ge _ NaN = False"
| "num_ge PosInf _ = True"
| "num_ge _ NegInf = True"
| "num_ge (Finite a) (Finite b) = (a \<ge> b)"
| "num_ge _ _ = False"

text \<open>\<^verbatim>\<open>v >= n\<close> for a Number literal \<open>n\<close>; \<open>None\<close> when the conversion of \<open>v\<close> throws.\<close>

definition js_ge :: "js_runtime \<Rightarrow> jsval \<Rightarrow> real \<Rightarrow> bool option" where
  "js_ge rt v n = map_option (\<lambda>x. num_ge x (Finite n)) (ToNumber rt v)"

text \<open>\<^verbatim>\<open>s.split(" ")\<close>: the pieces between the separators, empty pieces kept.\<close>

fun split :: "char \<Rightarrow> string \<Rightarrow> string list" where
  "split c [] = [[]]"
| "split c (x # xs) =
     (if x = c then [] # split c xs
      else (case split c xs of [] \<Rightarrow> [[x]] | p # ps \<Rightarrow> (x # p) # ps))"

text \<open>\<^verbatim>\<open>xs[i]\<close> on an array: \<^verbatim>\<open>undefined\<close> (\<open>None\<close>) out of range.\<close>

definition index :: "'a list \<Rightarrow> nat \<Rightarrow> 'a option" where
  "index xs i = (if i < length xs then Some (xs ! i) else None)"

section \<open>Requests, responses, configuration, globals\<close>

record request =
  req_method :: string
  pathname :: string
  headers :: "string \<Rightarrow> string option"
  body_text :: string

text \<open>
  A response body is either the text given to \<^verbatim>\<open>new Response\<close> or
  \<^verbatim>\<open>JSON.stringify(obj, null, 2)\<close> of the object given to \<^verbatim>\<open>jsonResponse\<close>.
\<close>

datatype body = Text string | JSON_stringify jsval

record response =
  body :: body
  status :: nat
  response_headers :: "(string \<times> string) list"

record env =
  DA_WRITETOKEN :: "string option"
  ABLY_WEBHOOK_SECRET :: "string option"
  LOG_TELEGRAM_BOT_TOKEN :: "string option"
  LOG_TELEGRAM_CHAT_ID :: "string option"
  DB :: "d1 option"

text \<open>
  The module-level variables \<^verbatim>\<open>G_DB\<close> and \<^verbatim>\<open>G_ENV\<close> (both \<^verbatim>\<open>null\<close> at start), and
  the effects so far. \<^verbatim>\<open>G_DB\<close> is \<^verbatim>\<open>null\<close>, or what \<^verbatim>\<open>env.DB\<close> was: a binding or
  \<^verbatim>\<open>undefined\<close>.
\<close>

datatype db_handle = DbNull | DbUndefined | DbObject d1

record world =
  G_DB :: db_handle
  G_ENV :: "env option"
  trace :: "event list"

definition emit :: "event \<Rightarrow> world \<Rightarrow> world" where
  "emit e w = w\<lparr>trace := trace w @ [e]\<rparr>"

text \<open>\<^verbatim>\<open>!s\<close> for a configuration string or header that may be absent.\<close>

fun falsy_str :: "string option \<Rightarrow> bool" where
  "falsy_str None = True"
| "falsy_str (Some s) = (s = [])"

section \<open>Utility\<close>

definition jsonResponse :: "jsval \<Rightarrow> nat \<Rightarrow> response" where
  "jsonResponse obj st =
     \<lparr>body = JSON_stringify obj, status = st,
      response_headers = [(''Content-Type'', ''application/json'')]\<rparr>"

definition ack :: "jsval \<Rightarrow> response" where
  "ack requestId =
     jsonResponse (JObj [(''type'', JStr ''ack''), (''request_id'', requestId)]) 200"

definition nack :: "jsval \<Rightarrow> string \<Rightarrow> string \<Rightarrow> response" where
  "nack requestId code msg =
     jsonResponse
       (JObj [(''type'', JStr ''nack''), (''request_id'', requestId),
              (''payload'', JObj [(''status'', JStr ''error''), (''code'', JStr code),
                                  (''message'', JStr msg)])])
       400"

definition plain :: "string \<Rightarrow> nat \<Rightarrow> response" where
  "plain s st = \<lparr>body = Text s, status = st, response_headers = []\<rparr>"

text \<open>The non-ASCII characters of the source's string literals, as UTF-8 bytes.\<close>

definition cross_mark :: string where
  "cross_mark = [CHR 0xE2, CHR 0x9D, CHR 0x8C]"

definition puzzle_piece :: string where
  "puzzle_piece = [CHR 0xF0, CHR 0x9F, CHR 0xA7, CHR 0xA9]"

definition input_numbers :: string where
  "input_numbers = [CHR 0xF0, CHR 0x9F, CHR 0x94, CHR 0xA2]"

definition collision :: string where
  "collision = [CHR 0xF0, CHR 0x9F, CHR 0x92, CHR 0xA5]"

definition nl :: string where
  "nl = [CHR 0x0A]"

definition sendMessage_url :: "string \<Rightarrow> string" where
  "sendMessage_url botToken = ''https://api.telegram.org/bot'' @ botToken @ ''/sendMessage''"

definition sendMessage_body :: "string \<Rightarrow> string \<Rightarrow> jsval" where
  "sendMessage_body chatId msg =
     JObj [(''chat_id'', JStr chatId), (''text'', JStr msg), (''parse_mode'', JStr ''Markdown'')]"

definition notifyTextTelegram :: "js_runtime \<Rightarrow> string \<Rightarrow> world \<Rightarrow> world" where
  "notifyTextTelegram rt logData w =
     (case G_ENV w of
        None \<Rightarrow> w
      | Some e \<Rightarrow>
          (case (LOG_TELEGRAM_BOT_TOKEN e, LOG_TELEGRAM_CHAT_ID e) of
             (Some botToken, Some chatId) \<Rightarrow>
               if botToken = [] \<or> chatId = [] then w
               else
                 let apiUrl = sendMessage_url botToken;
                     payload = sendMessage_body chatId logData;
                     w1 = emit (Fetch apiUrl payload) w
                 in (case global_fetch rt (trace w) apiUrl payload of
                       None \<Rightarrow> w1
                     | Some m \<Rightarrow> emit (ConsoleError (''notifyTelegramByLevel error: '' @ m)) w1)
           | _ \<Rightarrow> w))"

definition errDelegate :: "js_runtime \<Rightarrow> string \<Rightarrow> world \<Rightarrow> world" where
  "errDelegate rt msg w =
     notifyTextTelegram rt (cross_mark @ '' *Error*'' @ nl @ msg) (emit (ConsoleError msg) w)"

text \<open>
  The template literal of \<^verbatim>\<open>messageTelegram\<close>; \<open>None\<close> when one of its conversions
  throws.
\<close>

definition level_message :: "js_runtime \<Rightarrow> jsval \<Rightarrow> string option" where
  "level_message rt logData =
     (case (js_to_string rt (js_get logData ''message''),
            js_to_string rt (js_get logData ''service''),
            js_to_string rt (js_get logData ''instance''),
            js_to_string rt (js_get logData ''level'')) of
        (Some msg, Some service, Some instance, Some level) \<Rightarrow>
          Some (msg @ nl @ nl @ puzzle_piece @ '' '' @ service @ ''/'' @ instance @ nl
                  @ input_numbers @ '' Level: '' @ level)
      | _ \<Rightarrow> None)"

definition messageTelegram :: "js_runtime \<Rightarrow> jsval \<Rightarrow> world \<Rightarrow> world" where
  "messageTelegram rt logData w =
     (if nullish logData
      then emit (ConsoleError (''notifyTelegramByLevel error: ''
                   @ TypeError_message rt logData ''message'')) w
      else
        (case level_message rt logData of
           None \<Rightarrow>
             emit (ConsoleError (''notifyTelegramByLevel error: '' @ ToPrimitive_message rt)) w
         | Some msg \<Rightarrow> notifyTextTelegram rt msg w))"

section \<open>Main handler\<close>

definition insert_sql :: string where
  "insert_sql = ''INSERT INTO log1 (c1, c2, i1, t1) VALUES (?, ?, ?, ?)''"

definition missing_fields_text :: string where
  "missing_fields_text = ''Missing fields in payload: service, instance, level, message''"

text \<open>
  An async function either returns a value or throws; in both cases the effects it had
  stay. \<open>Inl\<close> is the thrown exception.
\<close>

definition handleApiRequest ::
  "js_runtime \<Rightarrow> jsval \<Rightarrow> jsval \<Rightarrow> world \<Rightarrow> (exn + response) \<times> world" where
  "handleApiRequest rt requestId payload w =
     (if nullish payload then (Inl (TypeError (TypeError_message rt payload ''service'')), w)
      else
        let service = js_get payload ''service'';
            instance = js_get payload ''instance'';
            level = js_get payload ''level'';
            msg = js_get payload ''message''
        in
          if \<not> truthy service \<or> \<not> truthy instance \<or> level = JUndefined \<or> \<not> truthy msg
          then (Inr (nack requestId ''MissingField'' missing_fields_text), w)
          else
            (case G_DB w of
               DbNull \<Rightarrow> (Inl (TypeError (TypeError_message rt JNull ''prepare'')), w)
             | DbUndefined \<Rightarrow>
                 (Inl (TypeError (TypeError_message rt JUndefined ''prepare'')), w)
             | DbObject db \<Rightarrow>
                 let args = [service, instance, level, msg];
                     w1 = emit (DbRun insert_sql args) w
                 in (case db (trace w) insert_sql args of
                       Some m \<Rightarrow> (Inl (Error m), w1)
                     | None \<Rightarrow>
                         (case js_ge rt level 3 of
                            None \<Rightarrow> (Inl (TypeError (ToPrimitive_message rt)), w1)
                          | Some high \<Rightarrow>
                              (Inr (ack requestId),
                               if high then messageTelegram rt payload w1 else w1)))))"

definition unauthorized_text :: string where
  "unauthorized_text = ''Missing or invalid Authorization header''"

text \<open>\<^verbatim>\<open>G_DB = env.DB\<close>.\<close>

definition env_DB :: "env \<Rightarrow> db_handle" where
  "env_DB e = (case DB e of None \<Rightarrow> DbUndefined | Some db \<Rightarrow> DbObject db)"

text \<open>
  \<^verbatim>\<open>handleApi\<close>. \<^verbatim>\<open>await request.json()\<close> is \<^verbatim>\<open>JSON.parse\<close> of the body text. Reading
  \<^verbatim>\<open>body.request_id\<close> of a body that parsed to \<^verbatim>\<open>null\<close> throws outside every
  \<^verbatim>\<open>try\<close>, so the exception leaves the handler.
\<close>

definition handleApi ::
  "js_runtime \<Rightarrow> request \<Rightarrow> env \<Rightarrow> world \<Rightarrow> (exn + response) \<times> world" where
  "handleApi rt req e w =
     (case headers req ''Authorization'' of
        None \<Rightarrow> (Inr (nack (JStr ''unknown'') ''UNAUTHORIZED'' unauthorized_text), w)
      | Some auth \<Rightarrow>
          if auth = [] \<or> \<not> prefix ''Bearer '' auth
          then (Inr (nack (JStr ''unknown'') ''UNAUTHORIZED'' unauthorized_text), w)
          else
            let token = index (split (CHR '' '') auth) 1 in
            if token \<noteq> DA_WRITETOKEN e
            then (Inr (nack (JStr ''unknown'') ''INVALID_TOKEN'' ''Token authentication failed''), w)
            else
              (case JSON_parse rt (JStr (body_text req)) of
                 Inl m \<Rightarrow> (Inr (nack (JStr ''unknown'') ''INVALID_JSON'' ''Malformed JSON body''), w)
               | Inr b \<Rightarrow>
                   if nullish b
                   then (Inl (TypeError (TypeError_message rt b ''request_id'')), w)
                   else
                     let requestId = (if truthy (js_get b ''request_id'')
                                      then js_get b ''request_id'' else JStr ''unknown'');
                         payload = js_get b ''payload''
                     in
                       if \<not> truthy payload \<or> \<not> truthy (js_get payload ''message'')
                       then (Inr (nack requestId ''INVALID_FIELD''
                                    ''Missing required field: payload.message''), w)
                       else
                         (case handleApiRequest rt requestId payload
                                 (w\<lparr>G_ENV := Some e, G_DB := env_DB e\<rparr>) of
                            (Inr r, w') \<Rightarrow> (Inr r, w')
                          | (Inl err, w') \<Rightarrow>
                              (Inr (nack requestId ''DB_ERROR'' (message err)),
                               errDelegate rt (''handleApiRequest failed: '' @ message err) w'))))"

section \<open>Ably webhook handler\<close>

text \<open>
  The body of the \<^verbatim>\<open>for\<close> loop for one message: \<open>Inr w'\<close> when the iteration ends
  (by \<^verbatim>\<open>continue\<close> or at its end), \<open>Inl\<close> when it throws (reading \<^verbatim>\<open>msg.data\<close> of a
  \<^verbatim>\<open>null\<close> element).
\<close>

definition ably_message :: "js_runtime \<Rightarrow> jsval \<Rightarrow> world \<Rightarrow> exn + world" where
  "ably_message rt msg w =
     (if nullish msg then Inl (TypeError (TypeError_message rt msg ''data''))
      else if \<not> truthy (js_get msg ''data'') then Inr w
      else
        (case JSON_parse rt (js_get msg ''data'') of
           Inl m \<Rightarrow>
             Inr (errDelegate rt (cross_mark @ '' Could not parse message.data JSON: '' @ m) w)
         | Inr msgpayload \<Rightarrow>
             let payload = (if nullish msgpayload then JUndefined
                            else js_get msgpayload ''payload'')
             in
               if \<not> truthy payload \<or> js_typeof payload \<noteq> ''object'' then Inr w
               else
                 (case handleApiRequest rt (JStr ''unknow'') payload w of
                    (Inr r, w') \<Rightarrow> Inr w'
                  | (Inl err, w') \<Rightarrow>
                      Inr (errDelegate rt (''Ably webhook failed: '' @ message err)
                             (errDelegate rt
                                (collision @ '' handleApiRequest failed: '' @ message err) w')))))"

text \<open>
  The \<^verbatim>\<open>for (const msg of messages)\<close> loop, in array order. An exception ends it; the
  world it carries holds the effects up to the throw.
\<close>

fun ably_loop :: "js_runtime \<Rightarrow> jsval list \<Rightarrow> world \<Rightarrow> (exn + unit) \<times> world" where
  "ably_loop rt [] w = (Inr (), w)"
| "ably_loop rt (msg # msgs) w =
     (case ably_message rt msg w of
        Inl err \<Rightarrow> (Inl err, w)
      | Inr w' \<Rightarrow> ably_loop rt msgs w')"

fun array_elements :: "jsval \<Rightarrow> jsval list" where
  "array_elements (JArr xs) = xs"
| "array_elements _ = []"

definition handleAblyWebhook :: "js_runtime \<Rightarrow> request \<Rightarrow> env \<Rightarrow> world \<Rightarrow> response \<times> world" where
  "handleAblyWebhook rt req e w =
     (let headerSecret = headers req ''X-Ably-Auth'' in
      if falsy_str headerSecret \<or> headerSecret \<noteq> ABLY_WEBHOOK_SECRET e
      then (plain ''Unauthorized'' 401,
            emit (ConsoleError (cross_mark @ '' Invalid Ably webhook secret'')) w)
      else
        (case JSON_parse rt (JStr (body_text req)) of
           Inl m \<Rightarrow>
             (plain ''Invalid JSON'' 400,
              errDelegate rt (cross_mark @ '' JSON parse error:'' @ m) w)
         | Inr b \<Rightarrow>
             if nullish b
             then (plain ''Internal Server Error'' 500,
                   errDelegate rt (''Webhook error: '' @ TypeError_message rt b ''items'') w)
             else
               let messages = (if truthy (js_get b ''items'') then js_get b ''items''
                               else js_get b ''messages'')
               in
                 if \<not> truthy messages \<or> \<not> isArray messages
                 then (plain ''Invalid webhook format'' 400,
                       errDelegate rt (cross_mark @ '' No messages in webhook payload'') w)
                 else
                   (case ably_loop rt (array_elements messages)
                           (w\<lparr>G_ENV := Some e, G_DB := env_DB e\<rparr>) of
                      (Inr u, w') \<Rightarrow> (plain ''OK'' 200, w')
                    | (Inl err, w') \<Rightarrow>
                        (plain ''Internal Server Error'' 500,
                         errDelegate rt (''Webhook error: '' @ message err) w'))))"

section \<open>Request router\<close>

definition fetch :: "js_runtime \<Rightarrow> request \<Rightarrow> env \<Rightarrow> world \<Rightarrow> (exn + response) \<times> world" where
  "fetch rt req e w =
     (if req_method req \<noteq> ''POST'' then (Inr (plain ''Method Not Allowed'' 405), w)
      else if pathname req = ''/api'' then handleApi rt req e w
      else if pathname req = ''/ably'' then
        (case handleAblyWebhook rt req e w of (r, w') \<Rightarrow> (Inr r, w'))
      else (Inr (plain ''Not Found'' 404), w))"

section \<open>Observations on the effects\<close>

fun is_DbRun :: "event \<Rightarrow> bool" where
  "is_DbRun (DbRun _ _) = True"
| "is_DbRun _ = False"

fun is_Fetch :: "event \<Rightarrow> bool" where
  "is_Fetch (Fetch _ _) = True"
| "is_Fetch _ = False"

fun is_ConsoleError :: "event \<Rightarrow> bool" where
  "is_ConsoleError (ConsoleError _) = True"
| "is_ConsoleError _ = False"

text \<open>The effects a run from world \<open>w\<close> to world \<open>w'\<close> added.\<close>

definition new_events :: "world \<Rightarrow> world \<Rightarrow> event list" where
  "new_events w w' = drop (length (trace w)) (trace w')"

text \<open>
  The notification channel is configured in \<^verbatim>\<open>G_ENV\<close>: both the bot token and the chat id
  are non-empty strings (otherwise \<^verbatim>\<open>notifyTextTelegram\<close> returns without sending).
\<close>

definition configured :: "world \<Rightarrow> string \<Rightarrow> string \<Rightarrow> bool" where
  "configured w botToken chatId =
     (case G_ENV w of
        None \<Rightarrow> False
      | Some e \<Rightarrow> LOG_TELEGRAM_BOT_TOKEN e = Some botToken \<and> botToken \<noteq> []
                  \<and> LOG_TELEGRAM_CHAT_ID e = Some chatId \<and> chatId \<noteq> [])"

text \<open>The validation of \<^verbatim>\<open>handleApiRequest\<close> passes, and the values it then binds.\<close>

definition valid_payload :: "jsval \<Rightarrow> bool" where
  "valid_payload p =
     (truthy (js_get p ''service'') \<and> truthy (js_get p ''instance'')
      \<and> js_get p ''level'' \<noteq> JUndefined \<and> truthy (js_get p ''message''))"

definition insert_args :: "jsval \<Rightarrow> jsval list" where
  "insert_args p =
     [js_get p ''service'', js_get p ''instance'', js_get p ''level'', js_get p ''message'']"

text \<open>The text \<^verbatim>\<open>errDelegate\<close> sends to the notification channel.\<close>

definition error_text :: "string \<Rightarrow> string" where
  "error_text msg = cross_mark @ '' *Error*'' @ nl @ msg"

text \<open>
  The payload the webhook loop hands to the pipeline for a (non-null) message, if it gets
  that far: \<^verbatim>\<open>msg.data\<close> is truthy and parses, and \<^verbatim>\<open>.payload\<close> of the result is a
  truthy object.
\<close>

definition message_payload :: "js_runtime \<Rightarrow> jsval \<Rightarrow> jsval option" where
  "message_payload rt msg =
     (if \<not> truthy (js_get msg ''data'') then None
      else
        (case JSON_parse rt (js_get msg ''data'') of
           Inl m \<Rightarrow> None
         | Inr msgpayload \<Rightarrow>
             let payload = (if nullish msgpayload then JUndefined
                            else js_get msgpayload ''payload'')
             in if truthy payload \<and> js_typeof payload = ''object'' then Some payload
                else None))"

text \<open>
  The storage appends the webhook loop makes for a (non-null) message: one if the message
  reaches the pipeline with a valid payload, none otherwise.
\<close>

definition message_appends :: "js_runtime \<Rightarrow> jsval \<Rightarrow> event list" where
  "message_appends rt msg =
     (case message_payload rt msg of
        None \<Rightarrow> []
      | Some p \<Rightarrow> if valid_payload p then [DbRun insert_sql (insert_args p)] else [])"

section \<open>Sample inputs\<close>

text \<open>
  A configuration, a runtime (with a parser and a transport outcome to choose), storage
  bindings and payloads on which the theorems below are instantiated.
\<close>

definition demo_db_ok :: d1 where
  "demo_db_ok tr sql args = None"

definition demo_env :: "d1 \<Rightarrow> env" where
  "demo_env db =
     \<lparr>DA_WRITETOKEN = Some ''s3cret'', ABLY_WEBHOOK_SECRET = Some ''hook-secret'',
      LOG_TELEGRAM_BOT_TOKEN = Some ''bot1'', LOG_TELEGRAM_CHAT_ID = Some ''42'',
      DB = Some db\<rparr>"

definition demo_Number_toString :: "jsnum \<Rightarrow> string" where
  "demo_Number_toString n =
     (if n = Finite 0 then ''0'' else if n = Finite 2 then ''2''
      else if n = Finite 5 then ''5'' else ''NaN'')"

definition demo_TypeError_message :: "jsval \<Rightarrow> string \<Rightarrow> string" where
  "demo_TypeError_message v k =
     ''Cannot read properties of '' @ (if v = JNull then ''null'' else ''undefined'')
       @ '' (reading '' @ [CHR 0x27] @ k @ [CHR 0x27] @ '')''"

definition demo_rt :: "(jsval \<Rightarrow> string + jsval) \<Rightarrow> string option \<Rightarrow> js_runtime" where
  "demo_rt parse outcome =
     \<lparr>JSON_parse = parse, Number_toString = demo_Number_toString,
      StringToNumber = (\<lambda>s. NaN), TypeError_message = demo_TypeError_message,
      ToPrimitive_message = ''Cannot convert object to primitive value'',
      global_fetch = (\<lambda>tr u b. outcome)\<rparr>"

text \<open>A parser for the samples in which nothing is parsed.\<close>

definition no_parse :: "jsval \<Rightarrow> string + jsval" where
  "no_parse v = Inl ''Unexpected token''"

text \<open>
  The world inside a request, once the handler has set the globals, and the world of a
  worker that has served no request yet.
\<close>

definition demo_world :: "d1 \<Rightarrow> world" where
  "demo_world db = \<lparr>G_DB = DbObject db, G_ENV = Some (demo_env db), trace = []\<rparr>"

definition fresh_world :: world where
  "fresh_world = \<lparr>G_DB = DbNull, G_ENV = None, trace = []\<rparr>"

definition demo_payload :: "jsval \<Rightarrow> jsval" where
  "demo_payload lvl =
     JObj [(''service'', JStr ''billing''), (''instance'', JStr ''eu-1''), (''level'', lvl),
           (''message'', JStr ''disk full'')]"

definition api_request :: "string option \<Rightarrow> string \<Rightarrow> request" where
  "api_request auth txt =
     \<lparr>req_method = ''POST'', pathname = ''/api'',
      headers = (\<lambda>h. if h = ''Authorization'' then auth else None), body_text = txt\<rparr>"

definition ably_request :: "string option \<Rightarrow> string \<Rightarrow> request" where
  "ably_request secret txt =
     \<lparr>req_method = ''POST'', pathname = ''/ably'',
      headers = (\<lambda>h. if h = ''X-Ably-Auth'' then secret else None), body_text = txt\<rparr>"

text \<open>
  \<^verbatim>\<open>JSON.parse\<close> on the texts a sample uses: a text of the table parses to the value
  beside it; every other argument stands for malformed input and throws.
\<close>

definition parse_table :: "(string \<times> jsval) list \<Rightarrow> jsval \<Rightarrow> string + jsval" where
  "parse_table tbl v =
     (case v of
        JStr s \<Rightarrow>
          (case map_of tbl s of
             Some r \<Rightarrow> Inr r
           | None \<Rightarrow> Inl (if s = [] then ''Unexpected end of JSON input''
                           else ''Unexpected token''))
      | _ \<Rightarrow> Inl ''Unexpected token'')"

definition level0_body :: string where
  \<open>level0_body = ''{"request_id":"r7","payload":{"service":"billing","instance":"eu-1","level":0,"message":"disk full"}}''\<close>

definition level0_json :: jsval where
  "level0_json = JObj [(''request_id'', JStr ''r7''), (''payload'', demo_payload (JNum (Finite 0)))]"

definition no_level_body :: string where
  \<open>no_level_body = ''{"payload":{"service":"s","instance":"i","message":"m"}}''\<close>

definition no_level_payload :: jsval where
  "no_level_payload = JObj [(''service'', JStr ''s''), (''instance'', JStr ''i''), (''message'', JStr ''m'')]"

definition no_level_json :: jsval where
  "no_level_json = JObj [(''payload'', no_level_payload)]"

definition get_request :: request where
  "get_request =
     \<lparr>req_method = ''GET'', pathname = ''/api'',
      headers = (\<lambda>h. if h = ''Authorization'' then Some ''Bearer s3cret'' else None),
      body_text = level0_body\<rparr>"

text \<open>
  Webhook batches. The \<^verbatim>\<open>data\<close> of a message is JSON text inside the JSON text of the
  body, so its quotes are escaped there.
\<close>

fun json_escape :: "string \<Rightarrow> string" where
  "json_escape [] = []"
| "json_escape (c # cs) =
     (if c = CHR 0x22 \<or> c = CHR 0x5C then CHR 0x5C # c # json_escape cs
      else c # json_escape cs)"

definition good2_data :: string where
  \<open>good2_data = ''{"payload":{"service":"billing","instance":"eu-1","level":2,"message":"disk full"}}''\<close>

definition good2_json :: jsval where
  "good2_json = JObj [(''payload'', demo_payload (JNum (Finite 2)))]"

definition good5_data :: string where
  \<open>good5_data = ''{"payload":{"service":"billing","instance":"eu-1","level":5,"message":"disk full"}}''\<close>

definition good5_json :: jsval where
  "good5_json = JObj [(''payload'', demo_payload (JNum (Finite 5)))]"

definition bad_data :: string where
  "bad_data = ''{not json''"

definition batch_body :: string where
  \<open>batch_body = ''{"items":[{"data":"'' @ json_escape good2_data @ ''"},{"data":"''
                   @ json_escape bad_data @ ''"},{"data":"'' @ json_escape good5_data @ ''"}]}''\<close>

definition batch_json :: jsval where
  "batch_json =
     JObj [(''items'', JArr [JObj [(''data'', JStr good2_data)], JObj [(''data'', JStr bad_data)],
                            JObj [(''data'', JStr good5_data)]])]"

definition no_level_batch_body :: string where
  \<open>no_level_batch_body = ''{"messages":[{"data":"'' @ json_escape no_level_body @ ''"}]}''\<close>

definition no_level_batch_json :: jsval where
  "no_level_batch_json = JObj [(''messages'', JArr [JObj [(''data'', JStr no_level_body)]])]"

definition empty_data_body :: string where
  \<open>empty_data_body = ''{"items":[{"data":""}]}''\<close>

definition empty_data_json :: jsval where
  "empty_data_json = JObj [(''items'', JArr [JObj [(''data'', JStr [])]])]"

definition null_element_body :: string where
  \<open>null_element_body = ''{"items":[{"data":"'' @ json_escape bad_data @ ''"},null,{"data":"''
                          @ json_escape good2_data @ ''"}]}''\<close>

definition null_element_json :: jsval where
  "null_element_json =
     JObj [(''items'', JArr [JObj [(''data'', JStr bad_data)], JNull,
                            JObj [(''data'', JStr good2_data)]])]"

text \<open>A storage binding whose first call throws and whose later calls return.\<close>

definition demo_db_first_fails :: d1 where
  "demo_db_first_fails tr sql args =
     (if filter is_DbRun tr = [] then Some ''D1_ERROR: Network connection lost.'' else None)"

section \<open>Effects of the utilities\<close>

lemma globals_emit [simp]: "G_ENV (emit ev w) = G_ENV w" "G_DB (emit ev w) = G_DB w"
  "trace (emit ev w) = trace w @ [ev]"
  by (simp_all add: emit_def)

lemma globals_notifyTextTelegram [simp]:
  "G_ENV (notifyTextTelegram rt s w) = G_ENV w" "G_DB (notifyTextTelegram rt s w) = G_DB w"
  by (simp_all add: notifyTextTelegram_def Let_def split: option.splits)

lemma globals_messageTelegram [simp]:
  "G_ENV (messageTelegram rt p w) = G_ENV w" "G_DB (messageTelegram rt p w) = G_DB w"
  by (simp_all add: messageTelegram_def split: option.splits)

lemma globals_errDelegate [simp]:
  "G_ENV (errDelegate rt m w) = G_ENV w" "G_DB (errDelegate rt m w) = G_DB w"
  by (simp_all add: errDelegate_def)

lemma configured_emit [simp]: "configured (emit ev w) b c = configured w b c"
  by (simp add: configured_def)

lemma configured_cong: "G_ENV w' = G_ENV w \<Longrightarrow> configured w' b c = configured w b c"
  by (simp add: configured_def)

lemma new_events_append [simp]: "trace w' = trace w @ ex \<Longrightarrow> new_events w w' = ex"
  by (simp add: new_events_def)

lemma trace_notifyTextTelegram:
  "\<exists>ex. trace (notifyTextTelegram rt s w) = trace w @ ex \<and> filter is_DbRun ex = []
     \<and> (\<forall>botToken chatId. configured w botToken chatId \<longrightarrow>
           filter is_Fetch ex = [Fetch (sendMessage_url botToken) (sendMessage_body chatId s)])
     \<and> ((\<forall>tr u b. global_fetch rt tr u b = None) \<longrightarrow> filter is_ConsoleError ex = [])"
  by (auto simp add: notifyTextTelegram_def configured_def Let_def split: option.splits)

lemma trace_errDelegate:
  "\<exists>ex. trace (errDelegate rt m w) = trace w @ ConsoleError m # ex \<and> filter is_DbRun ex = []
     \<and> (\<forall>botToken chatId. configured w botToken chatId \<longrightarrow>
           filter is_Fetch ex = [Fetch (sendMessage_url botToken) (sendMessage_body chatId (error_text m))])
     \<and> ((\<forall>tr u b. global_fetch rt tr u b = None) \<longrightarrow> filter is_ConsoleError ex = [])"
proof -
  obtain ex where "trace (notifyTextTelegram rt (error_text m) (emit (ConsoleError m) w))
        = trace (emit (ConsoleError m) w) @ ex"
      "filter is_DbRun ex = []"
      "\<forall>botToken chatId. configured (emit (ConsoleError m) w) botToken chatId \<longrightarrow>
           filter is_Fetch ex = [Fetch (sendMessage_url botToken) (sendMessage_body chatId (error_text m))]"
      "(\<forall>tr u b. global_fetch rt tr u b = None) \<longrightarrow> filter is_ConsoleError ex = []"
    using trace_notifyTextTelegram [of rt "error_text m" "emit (ConsoleError m) w"] by blast
  then show ?thesis by (auto simp add: errDelegate_def error_text_def)
qed

lemma trace_messageTelegram:
  "\<not> nullish p \<Longrightarrow>
   \<exists>ex. trace (messageTelegram rt p w) = trace w @ ex \<and> filter is_DbRun ex = []
     \<and> (\<forall>botToken chatId msg. configured w botToken chatId \<and> level_message rt p = Some msg \<longrightarrow>
           filter is_Fetch ex = [Fetch (sendMessage_url botToken) (sendMessage_body chatId msg)])"
proof (cases "level_message rt p")
  case None
  assume "\<not> nullish p"
  with None show ?thesis by (simp add: messageTelegram_def)
next
  case (Some msg)
  assume "\<not> nullish p"
  with Some show ?thesis
    using trace_notifyTextTelegram [of rt msg w] by (auto simp add: messageTelegram_def)
qed

lemma status_ack [simp]: "status (ack rid) = 200"
  by (simp add: ack_def jsonResponse_def)

lemma status_nack [simp]: "status (nack rid code msg) = 400"
  by (simp add: nack_def jsonResponse_def)

lemmas demo_defs = demo_db_ok_def demo_env_def demo_Number_toString_def
  demo_TypeError_message_def demo_rt_def no_parse_def demo_world_def fresh_world_def
  demo_payload_def

lemmas model_defs = valid_payload_def insert_args_def js_ge_def string_to_number_def
  emit_def notifyTextTelegram_def messageTelegram_def errDelegate_def level_message_def
  sendMessage_url_def sendMessage_body_def error_text_def

lemmas batch_defs = json_escape.simps good2_data_def good2_json_def good5_data_def
  good5_json_def bad_data_def batch_json_def no_level_batch_json_def empty_data_json_def
  null_element_json_def

lemmas handler_defs = handleAblyWebhook_def ably_message_def handleApiRequest_def
  handleApi_def env_DB_def plain_def

section \<open>The ingestion pipeline\<close>

lemma truthy_get_not_nullish: "truthy (js_get p k) \<Longrightarrow> \<not> nullish p"
  by (cases p) simp_all

lemma valid_payload_not_nullish: "valid_payload p \<Longrightarrow> \<not> nullish p"
  by (auto simp add: valid_payload_def dest: truthy_get_not_nullish)

lemma handleApiRequest_invalid:
  "\<not> nullish p \<Longrightarrow> \<not> valid_payload p \<Longrightarrow>
   handleApiRequest rt rid p w = (Inr (nack rid ''MissingField'' missing_fields_text), w)"
  by (auto simp add: handleApiRequest_def valid_payload_def Let_def)

lemma handleApiRequest_valid:
  "valid_payload p \<Longrightarrow> G_DB w = DbObject db \<Longrightarrow>
   handleApiRequest rt rid p w =
     (case db (trace w) insert_sql (insert_args p) of
        Some m \<Rightarrow> (Inl (Error m), emit (DbRun insert_sql (insert_args p)) w)
      | None \<Rightarrow>
          (case js_ge rt (js_get p ''level'') 3 of
             None \<Rightarrow>
               (Inl (TypeError (ToPrimitive_message rt)),
                emit (DbRun insert_sql (insert_args p)) w)
           | Some high \<Rightarrow>
               (Inr (ack rid),
                if high then messageTelegram rt p (emit (DbRun insert_sql (insert_args p)) w)
                else emit (DbRun insert_sql (insert_args p)) w)))"
  by (frule valid_payload_not_nullish)
     (auto simp add: handleApiRequest_def valid_payload_def insert_args_def Let_def
           split: option.splits)

lemma handleApiRequest_response:
  "handleApiRequest rt rid p w = (Inr r, w') \<Longrightarrow>
   r = ack rid \<or> r = nack rid ''MissingField'' missing_fields_text"
  by (auto simp add: handleApiRequest_def Let_def
           split: if_splits db_handle.splits option.splits)

lemma globals_handleApiRequest [simp]:
  "G_ENV (snd (handleApiRequest rt rid p w)) = G_ENV w"
  "G_DB (snd (handleApiRequest rt rid p w)) = G_DB w"
  by (simp_all add: handleApiRequest_def Let_def split: db_handle.splits option.splits)

lemma trace_handleApiRequest:
  "\<exists>ex. trace (snd (handleApiRequest rt rid p w)) = trace w @ ex
     \<and> (\<forall>db. G_DB w = DbObject db \<longrightarrow>
           filter is_DbRun ex = (if valid_payload p then [DbRun insert_sql (insert_args p)] else []))"
proof (cases "valid_payload p")
  case False
  then show ?thesis
    by (cases "nullish p") (simp_all add: handleApiRequest_invalid, simp add: handleApiRequest_def)
next
  case True
  then have nn: "\<not> nullish p" by (rule valid_payload_not_nullish)
  show ?thesis
  proof (cases "G_DB w")
    case (DbObject db)
    let ?w1 = "emit (DbRun insert_sql (insert_args p)) w"
    obtain ex where ex: "trace (messageTelegram rt p ?w1) = trace ?w1 @ ex" "filter is_DbRun ex = []"
      using trace_messageTelegram [OF nn, of rt ?w1] by blast
    show ?thesis
      using True DbObject ex
      by (auto simp add: handleApiRequest_valid [OF True DbObject] split: option.splits)
  qed (use True nn in \<open>simp_all add: handleApiRequest_def valid_payload_def Let_def\<close>)
qed

text \<open>
  A value that \<^verbatim>\<open>>=\<close> can convert to a number has a string too: both conversions throw
  on the same values.
\<close>

lemma ToNumber_js_to_string: "ToNumber rt v = Some n \<Longrightarrow> \<exists>s. js_to_string rt v = Some s"
  by (cases v) auto

lemma js_ge_js_to_string: "js_ge rt v n = Some b \<Longrightarrow> \<exists>s. js_to_string rt v = Some s"
  by (auto simp add: js_ge_def dest: ToNumber_js_to_string)

lemma falsy_not_ge3:
  "v \<noteq> JUndefined \<Longrightarrow> \<not> truthy v \<Longrightarrow> js_ge rt v 3 = Some False"
proof (cases v)
  case (JNum n)
  assume "\<not> truthy v"
  with JNum show ?thesis by (cases n) (simp_all add: js_ge_def)
qed (simp_all add: js_ge_def string_to_number_def)

text \<open>
  Claim C2. For every payload whose service, instance and message are non-empty strings
  and whose level is present with \<^verbatim>\<open>level >= 3\<close> true, when the storage append returns,
  the pipeline returns the ack for its request id and its effects are: first the one
  storage append, then the effects of one call of the notification sender
  \<^verbatim>\<open>messageTelegram\<close> on the payload. The sender makes no storage call, so the append
  is the only one; with the channel configured it makes exactly one send, carrying the
  level message. The runtime \<open>rt\<close> is arbitrary: the ack does not depend on whether
  the transport (\<open>global_fetch rt\<close>) resolves or rejects.
\<close>

theorem handleApiRequest_high_level:
  assumes "js_get payload ''service'' = JStr service" and "service \<noteq> []"
    and "js_get payload ''instance'' = JStr instance" and "instance \<noteq> []"
    and "js_get payload ''message'' = JStr msg" and "msg \<noteq> []"
    and "js_get payload ''level'' = level" and "level \<noteq> JUndefined"
    and "js_ge rt level 3 = Some True"
    and "G_DB w = DbObject db"
    and "db (trace w) insert_sql [JStr service, JStr instance, level, JStr msg] = None"
  shows "handleApiRequest rt requestId payload w =
           (Inr (ack requestId),
            messageTelegram rt payload
              (emit (DbRun insert_sql [JStr service, JStr instance, level, JStr msg]) w))
         \<and> (\<exists>lvl notif.
               js_to_string rt level = Some lvl
               \<and> new_events w (snd (handleApiRequest rt requestId payload w)) =
                   DbRun insert_sql [JStr service, JStr instance, level, JStr msg] # notif
               \<and> filter is_DbRun notif = []
               \<and> (\<forall>botToken chatId. configured w botToken chatId \<longrightarrow>
                     filter is_Fetch notif =
                       [Fetch (sendMessage_url botToken)
                          (sendMessage_body chatId
                             (msg @ nl @ nl @ puzzle_piece @ '' '' @ service @ ''/'' @ instance
                                @ nl @ input_numbers @ '' Level: '' @ lvl))]))"
proof -
  let ?args = "[JStr service, JStr instance, level, JStr msg]"
  let ?w1 = "emit (DbRun insert_sql ?args) w"
  have v: "valid_payload payload" using assms(1-8) by (simp add: valid_payload_def)
  have args: "insert_args payload = ?args" using assms(1,3,5,7) by (simp add: insert_args_def)
  have nn: "\<not> nullish payload" using v by (rule valid_payload_not_nullish)
  have run: "handleApiRequest rt requestId payload w =
               (Inr (ack requestId), messageTelegram rt payload ?w1)"
    using handleApiRequest_valid [OF v assms(10), of rt requestId] assms(7,9,11) args by simp
  obtain lvl where lvl: "js_to_string rt level = Some lvl"
    using js_ge_js_to_string [OF assms(9)] by blast
  let ?text = "msg @ nl @ nl @ puzzle_piece @ '' '' @ service @ ''/'' @ instance
                 @ nl @ input_numbers @ '' Level: '' @ lvl"
  have lm: "level_message rt payload = Some ?text"
    using assms(1,3,5,7) lvl by (simp add: level_message_def)
  obtain ex where ex: "trace (messageTelegram rt payload ?w1) = trace ?w1 @ ex"
      "filter is_DbRun ex = []"
      "\<forall>botToken chatId t. configured ?w1 botToken chatId \<and> level_message rt payload = Some t
           \<longrightarrow> filter is_Fetch ex = [Fetch (sendMessage_url botToken) (sendMessage_body chatId t)]"
    using trace_messageTelegram [OF nn, of rt ?w1] by blast
  have ev: "new_events w (messageTelegram rt payload ?w1) = DbRun insert_sql ?args # ex"
    using ex(1) by simp
  have sends: "\<forall>botToken chatId. configured w botToken chatId \<longrightarrow>
      filter is_Fetch ex = [Fetch (sendMessage_url botToken) (sendMessage_body chatId ?text)]"
    using ex(3) lm by simp
  show ?thesis
    using run lvl ev ex(2) sends by (intro conjI exI [of _ lvl] exI [of _ ex]) simp_all
qed

theorem handleApiRequest_high_level_witness:
  "js_get (demo_payload (JNum (Finite 5))) ''level'' = JNum (Finite 5)
   \<and> js_ge (demo_rt no_parse (Some ''network down'')) (JNum (Finite 5)) 3 = Some True
   \<and> G_DB (demo_world demo_db_ok) = DbObject demo_db_ok
   \<and> fst (handleApiRequest (demo_rt no_parse (Some ''network down'')) (JStr ''r1'')
             (demo_payload (JNum (Finite 5))) (demo_world demo_db_ok)) = Inr (ack (JStr ''r1''))
   \<and> trace (snd (handleApiRequest (demo_rt no_parse (Some ''network down'')) (JStr ''r1'')
             (demo_payload (JNum (Finite 5))) (demo_world demo_db_ok))) =
       [DbRun insert_sql [JStr ''billing'', JStr ''eu-1'', JNum (Finite 5), JStr ''disk full''],
        Fetch ''https://api.telegram.org/botbot1/sendMessage''
          (JObj [(''chat_id'', JStr ''42''),
                 (''text'', JStr (''disk full'' @ nl @ nl @ puzzle_piece @ '' billing/eu-1'' @ nl
                                  @ input_numbers @ '' Level: 5'')),
                 (''parse_mode'', JStr ''Markdown'')]),
        ConsoleError ''notifyTelegramByLevel error: network down'']"
proof -
  let ?rt = "demo_rt no_parse (Some ''network down'')"
  let ?p = "demo_payload (JNum (Finite 5))"
  have h: "js_get ?p ''service'' = JStr ''billing''" "''billing'' \<noteq> []"
      "js_get ?p ''instance'' = JStr ''eu-1''" "''eu-1'' \<noteq> []"
      "js_get ?p ''message'' = JStr ''disk full''" "''disk full'' \<noteq> []"
      "js_get ?p ''level'' = JNum (Finite 5)" "JNum (Finite 5) \<noteq> JUndefined"
      "js_ge ?rt (JNum (Finite 5)) 3 = Some True"
      "G_DB (demo_world demo_db_ok) = DbObject demo_db_ok"
      "demo_db_ok (trace (demo_world demo_db_ok)) insert_sql
         [JStr ''billing'', JStr ''eu-1'', JNum (Finite 5), JStr ''disk full''] = None"
    by (simp_all add: demo_defs js_ge_def)
  note run = handleApiRequest_high_level [OF h, of "JStr ''r1''", THEN conjunct1]
  show ?thesis
    using h(7,9,10) by (simp add: run) (simp add: demo_defs model_defs)
qed

text \<open>
  Claim C10. The level check of the pipeline rejects only \<^verbatim>\<open>undefined\<close>: for a payload
  whose level is any other falsy value (\<^verbatim>\<open>null\<close>, \<^verbatim>\<open>false\<close>, 0, \<^verbatim>\<open>NaN\<close>, the empty
  string) and whose service, instance and message are truthy, when the storage append
  returns, the pipeline returns the ack, and its only effect is the storage append of
  service, instance, that level value and message: no notification, since
  \<^verbatim>\<open>level >= 3\<close> is false for each of these values.
\<close>

theorem handleApiRequest_falsy_level:
  assumes "truthy (js_get payload ''service'')" and "truthy (js_get payload ''instance'')"
    and "truthy (js_get payload ''message'')"
    and "js_get payload ''level'' \<noteq> JUndefined" and "\<not> truthy (js_get payload ''level'')"
    and "G_DB w = DbObject db"
    and "db (trace w) insert_sql (insert_args payload) = None"
  shows "handleApiRequest rt requestId payload w =
           (Inr (ack requestId),
            emit (DbRun insert_sql [js_get payload ''service'', js_get payload ''instance'',
                                    js_get payload ''level'', js_get payload ''message'']) w)
         \<and> new_events w (snd (handleApiRequest rt requestId payload w)) =
             [DbRun insert_sql [js_get payload ''service'', js_get payload ''instance'',
                                js_get payload ''level'', js_get payload ''message'']]"
proof -
  have v: "valid_payload payload" using assms(1-4) by (simp add: valid_payload_def)
  have low: "js_ge rt (js_get payload ''level'') 3 = Some False"
    using assms(4,5) by (rule falsy_not_ge3)
  have "handleApiRequest rt requestId payload w =
          (Inr (ack requestId), emit (DbRun insert_sql (insert_args payload)) w)"
    using v low assms(6,7) by (simp add: handleApiRequest_valid)
  then show ?thesis by (simp add: insert_args_def)
qed

theorem handleApiRequest_falsy_level_witness:
  "truthy (js_get (demo_payload JNull) ''service'')
   \<and> truthy (js_get (demo_payload JNull) ''instance'')
   \<and> truthy (js_get (demo_payload JNull) ''message'')
   \<and> js_get (demo_payload JNull) ''level'' \<noteq> JUndefined
   \<and> \<not> truthy (js_get (demo_payload JNull) ''level'')
   \<and> G_DB (demo_world demo_db_ok) = DbObject demo_db_ok
   \<and> demo_db_ok (trace (demo_world demo_db_ok)) insert_sql (insert_args (demo_payload JNull))
       = None
   \<and> fst (handleApiRequest (demo_rt no_parse None) (JStr ''r2'') (demo_payload JNull)
            (demo_world demo_db_ok)) = Inr (ack (JStr ''r2''))
   \<and> trace (snd (handleApiRequest (demo_rt no_parse None) (JStr ''r2'') (demo_payload JNull)
            (demo_world demo_db_ok))) =
       [DbRun insert_sql [JStr ''billing'', JStr ''eu-1'', JNull, JStr ''disk full'']]"
proof -
  have h: "truthy (js_get (demo_payload JNull) ''service'')"
      "truthy (js_get (demo_payload JNull) ''instance'')"
      "truthy (js_get (demo_payload JNull) ''message'')"
      "js_get (demo_payload JNull) ''level'' \<noteq> JUndefined"
      "\<not> truthy (js_get (demo_payload JNull) ''level'')"
      "G_DB (demo_world demo_db_ok) = DbObject demo_db_ok"
      "demo_db_ok (trace (demo_world demo_db_ok)) insert_sql (insert_args (demo_payload JNull))
         = None"
    by (simp_all add: demo_defs)
  from handleApiRequest_falsy_level [OF h, of "demo_rt no_parse None" "JStr ''r2''"]
  have "handleApiRequest (demo_rt no_parse None) (JStr ''r2'') (demo_payload JNull)
          (demo_world demo_db_ok) =
        (Inr (ack (JStr ''r2'')),
         emit (DbRun insert_sql [js_get (demo_payload JNull) ''service'',
                 js_get (demo_payload JNull) ''instance'', js_get (demo_payload JNull) ''level'',
                 js_get (demo_payload JNull) ''message'']) (demo_world demo_db_ok))"
    by blast
  then show ?thesis using h by (simp add: demo_defs emit_def)
qed

section \<open>Direct API\<close>

lemma handleApi_authorized:
  assumes "headers req ''Authorization'' = Some auth" and "prefix ''Bearer '' auth"
    and "index (split (CHR '' '') auth) 1 = DA_WRITETOKEN e"
    and "JSON_parse rt (JStr (body_text req)) = Inr b" and "\<not> nullish b"
  shows "handleApi rt req e w =
     (let requestId = (if truthy (js_get b ''request_id'')
                       then js_get b ''request_id'' else JStr ''unknown'');
          payload = js_get b ''payload''
      in if \<not> truthy payload \<or> \<not> truthy (js_get payload ''message'')
         then (Inr (nack requestId ''INVALID_FIELD''
                      ''Missing required field: payload.message''), w)
         else
           (case handleApiRequest rt requestId payload (w\<lparr>G_ENV := Some e, G_DB := env_DB e\<rparr>) of
              (Inr r, w') \<Rightarrow> (Inr r, w')
            | (Inl err, w') \<Rightarrow>
                (Inr (nack requestId ''DB_ERROR'' (message err)),
                 errDelegate rt (''handleApiRequest failed: '' @ message err) w')))"
proof -
  have "auth \<noteq> []" using assms(2) by auto
  then show ?thesis using assms by (simp add: handleApi_def Let_def)
qed

lemma handleApi_response:
  assumes "handleApi rt req e w = (Inr r, w')"
  shows "(\<exists>rid. r = ack rid) \<or> (\<exists>rid code msg. r = nack rid code msg)"
proof -
  have api: "\<And>rid p w1 r1 w2. handleApiRequest rt rid p w1 = (Inr r1, w2) \<Longrightarrow>
      (\<exists>rid. r1 = ack rid) \<or> (\<exists>rid code msg. r1 = nack rid code msg)"
    by (drule handleApiRequest_response) blast
  show ?thesis
    using assms
    by (auto simp add: handleApi_def Let_def
             split: option.splits if_splits sum.splits prod.splits dest: api)
qed

lemma split_prefix:
  "c \<notin> set p \<Longrightarrow> split c (p @ c # x) = p # split c x"
  by (induction p) (auto split: list.splits)

lemma split_no_separator: "c \<notin> set x \<Longrightarrow> split c x = [x]"
  by (induction x) auto

lemma bearer_token:
  "CHR '' '' \<notin> set x \<Longrightarrow> index (split (CHR '' '') (''Bearer '' @ x)) 1 = Some x"
proof -
  assume a: "CHR '' '' \<notin> set x"
  have "split (CHR '' '') (''Bearer'' @ CHR '' '' # x) = ''Bearer'' # split (CHR '' '') x"
    by (rule split_prefix) simp
  with a show ?thesis by (simp add: split_no_separator index_def)
qed

lemma bearer_token_rest:
  "CHR '' '' \<notin> set x \<Longrightarrow>
   index (split (CHR '' '') (''Bearer '' @ x @ CHR '' '' # y)) 1 = Some x"
proof -
  assume a: "CHR '' '' \<notin> set x"
  have "split (CHR '' '') (''Bearer'' @ CHR '' '' # (x @ CHR '' '' # y))
          = ''Bearer'' # split (CHR '' '') (x @ CHR '' '' # y)"
    by (rule split_prefix) simp
  moreover have "split (CHR '' '') (x @ CHR '' '' # y) = x # split (CHR '' '') y"
    using a by (rule split_prefix)
  ultimately show ?thesis by (simp add: index_def)
qed

text \<open>
  Claim C5 as stated fails. The handler compares the write token with
  \<^verbatim>\<open>auth.split(" ")[1]\<close>, the piece of the header between its first and its second space,
  not with everything after \<^verbatim>\<open>Bearer \<close>. So the header
  \<^verbatim>\<open>Bearer s3cret extra words\<close>, whose credential \<^verbatim>\<open>s3cret extra words\<close> is not the
  write token \<^verbatim>\<open>s3cret\<close>, is not answered with \<^verbatim>\<open>INVALID_TOKEN\<close>: the request is
  accepted, with the ack and a storage append.
\<close>

theorem handleApi_auth_counterexample:
  "headers (api_request (Some ''Bearer s3cret extra words'') level0_body) ''Authorization''
     = Some (''Bearer '' @ ''s3cret extra words'')
   \<and> DA_WRITETOKEN (demo_env demo_db_ok) = Some ''s3cret''
   \<and> ''s3cret extra words'' \<noteq> ''s3cret''
   \<and> index (split (CHR '' '') ''Bearer s3cret extra words'') 1 = Some ''s3cret''
   \<and> fst (handleApi (demo_rt (parse_table [(level0_body, level0_json)]) None)
            (api_request (Some ''Bearer s3cret extra words'') level0_body) (demo_env demo_db_ok)
            fresh_world)
       = Inr (ack (JStr ''r7''))
   \<and> trace (snd (handleApi (demo_rt (parse_table [(level0_body, level0_json)]) None)
            (api_request (Some ''Bearer s3cret extra words'') level0_body) (demo_env demo_db_ok)
            fresh_world))
       = [DbRun insert_sql [JStr ''billing'', JStr ''eu-1'', JNum (Finite 0), JStr ''disk full'']]"
  by (simp add: handler_defs demo_defs model_defs api_request_def parse_table_def
        level0_json_def index_def Let_def)

text \<open>
  Claim C5, as amended. On the Direct API: (1) when the Authorization header is missing or
  does not start with \<^verbatim>\<open>Bearer \<close>, the response is the nack with code
  \<^verbatim>\<open>UNAUTHORIZED\<close> and request id \<^verbatim>\<open>unknown\<close>, with no effect, whatever the body text
  and the JSON parser are (the body is not read); (2) when the header starts with
  \<^verbatim>\<open>Bearer \<close> and the token the handler extracts, the piece between the first and the
  second space of the header (up to its end when there is no second space), differs from
  the configured write token, the response is the nack with code \<^verbatim>\<open>INVALID_TOKEN\<close>;
  for a header \<^verbatim>\<open>Bearer x\<close> or \<^verbatim>\<open>Bearer x y\<close> with no space in \<open>x\<close> that token is
  \<open>x\<close>, whatever \<open>y\<close> is; (3) every nack
  has status 400, and every response of the handler is an ack with status 200 or a nack
  with status 400.
\<close>

theorem handleApi_auth:
  "(headers req ''Authorization'' = None
      \<or> (\<exists>auth. headers req ''Authorization'' = Some auth \<and> \<not> prefix ''Bearer '' auth)
    \<longrightarrow> (\<forall>rt' t. handleApi rt' (req\<lparr>body_text := t\<rparr>) e w =
            (Inr (nack (JStr ''unknown'') ''UNAUTHORIZED'' unauthorized_text), w)))
   \<and> (\<forall>auth. headers req ''Authorization'' = Some auth \<and> prefix ''Bearer '' auth
          \<and> index (split (CHR '' '') auth) 1 \<noteq> DA_WRITETOKEN e
        \<longrightarrow> handleApi rt req e w =
              (Inr (nack (JStr ''unknown'') ''INVALID_TOKEN'' ''Token authentication failed''), w))
   \<and> (\<forall>x. headers req ''Authorization'' = Some (''Bearer '' @ x) \<and> CHR '' '' \<notin> set x
          \<and> Some x \<noteq> DA_WRITETOKEN e
        \<longrightarrow> handleApi rt req e w =
              (Inr (nack (JStr ''unknown'') ''INVALID_TOKEN'' ''Token authentication failed''), w))
   \<and> (\<forall>x y. headers req ''Authorization'' = Some (''Bearer '' @ x @ CHR '' '' # y)
          \<and> CHR '' '' \<notin> set x \<and> Some x \<noteq> DA_WRITETOKEN e
        \<longrightarrow> handleApi rt req e w =
              (Inr (nack (JStr ''unknown'') ''INVALID_TOKEN'' ''Token authentication failed''), w))
   \<and> (\<forall>requestId code msg. status (nack requestId code msg) = 400)
   \<and> (\<forall>r w'. handleApi rt req e w = (Inr r, w') \<longrightarrow>
          (\<exists>requestId. r = ack requestId \<and> status r = 200)
          \<or> (\<exists>requestId code msg. r = nack requestId code msg \<and> status r = 400))"
proof (intro conjI allI impI)
  fix rt' t
  assume "headers req ''Authorization'' = None
      \<or> (\<exists>auth. headers req ''Authorization'' = Some auth \<and> \<not> prefix ''Bearer '' auth)"
  then show "handleApi rt' (req\<lparr>body_text := t\<rparr>) e w =
            (Inr (nack (JStr ''unknown'') ''UNAUTHORIZED'' unauthorized_text), w)"
    by (auto simp add: handleApi_def)
next
  fix auth
  assume a: "headers req ''Authorization'' = Some auth \<and> prefix ''Bearer '' auth
          \<and> index (split (CHR '' '') auth) 1 \<noteq> DA_WRITETOKEN e"
  then have "auth \<noteq> []" by auto
  with a show "handleApi rt req e w =
      (Inr (nack (JStr ''unknown'') ''INVALID_TOKEN'' ''Token authentication failed''), w)"
    by (simp add: handleApi_def Let_def)
next
  fix x
  assume a: "headers req ''Authorization'' = Some (''Bearer '' @ x) \<and> CHR '' '' \<notin> set x
          \<and> Some x \<noteq> DA_WRITETOKEN e"
  then have "index (split (CHR '' '') (''Bearer '' @ x)) 1 = Some x"
    by (blast intro: bearer_token)
  with a show "handleApi rt req e w =
      (Inr (nack (JStr ''unknown'') ''INVALID_TOKEN'' ''Token authentication failed''), w)"
    by (simp add: handleApi_def Let_def)
next
  fix x y
  assume a: "headers req ''Authorization'' = Some (''Bearer '' @ x @ CHR '' '' # y)
          \<and> CHR '' '' \<notin> set x \<and> Some x \<noteq> DA_WRITETOKEN e"
  then have "index (split (CHR '' '') (''Bearer '' @ x @ CHR '' '' # y)) 1 = Some x"
    by (blast intro: bearer_token_rest)
  with a show "handleApi rt req e w =
      (Inr (nack (JStr ''unknown'') ''INVALID_TOKEN'' ''Token authentication failed''), w)"
    by (simp add: handleApi_def Let_def)
next
  fix requestId code msg
  show "status (nack requestId code msg) = 400" by simp
next
  fix r w'
  assume "handleApi rt req e w = (Inr r, w')"
  then show "(\<exists>requestId. r = ack requestId \<and> status r = 200)
          \<or> (\<exists>requestId code msg. r = nack requestId code msg \<and> status r = 400)"
    by (auto dest: handleApi_response)
qed

theorem handleApi_auth_witness:
  "headers (api_request None level0_body) ''Authorization'' = None
   \<and> handleApi (demo_rt no_parse None) (api_request None level0_body) (demo_env demo_db_ok)
         fresh_world
       = (Inr (nack (JStr ''unknown'') ''UNAUTHORIZED'' unauthorized_text), fresh_world)
   \<and> \<not> prefix ''Bearer '' ''Basic dXNlcg==''
   \<and> handleApi (demo_rt no_parse None) (api_request (Some ''Basic dXNlcg=='') level0_body)
         (demo_env demo_db_ok) fresh_world
       = (Inr (nack (JStr ''unknown'') ''UNAUTHORIZED'' unauthorized_text), fresh_world)
   \<and> index (split (CHR '' '') ''Bearer guess'') 1 \<noteq> DA_WRITETOKEN (demo_env demo_db_ok)
   \<and> handleApi (demo_rt no_parse None) (api_request (Some ''Bearer guess'') level0_body)
         (demo_env demo_db_ok) fresh_world
       = (Inr (nack (JStr ''unknown'') ''INVALID_TOKEN'' ''Token authentication failed''),
          fresh_world)
   \<and> handleApi (demo_rt no_parse None)
         (api_request (Some (''Bearer '' @ ''guess'' @ CHR '' '' # ''extra words'')) level0_body)
         (demo_env demo_db_ok) fresh_world
       = (Inr (nack (JStr ''unknown'') ''INVALID_TOKEN'' ''Token authentication failed''),
          fresh_world)
   \<and> status (nack (JStr ''unknown'') ''INVALID_TOKEN'' ''Token authentication failed'') = 400"
proof -
  let ?rt = "demo_rt no_parse None"
  let ?e = "demo_env demo_db_ok"
  have a1: "headers (api_request None level0_body) ''Authorization'' = None"
    by (simp add: api_request_def)
  have a2: "\<not> prefix ''Bearer '' ''Basic dXNlcg==''" by simp
  have a2': "\<exists>auth. headers (api_request (Some ''Basic dXNlcg=='') level0_body) ''Authorization''
               = Some auth \<and> \<not> prefix ''Bearer '' auth"
    by (simp add: api_request_def)
  have a3: "index (split (CHR '' '') ''Bearer guess'') 1 \<noteq> DA_WRITETOKEN ?e"
    by (simp add: index_def demo_env_def)
  have a3': "headers (api_request (Some ''Bearer guess'') level0_body) ''Authorization''
               = Some ''Bearer guess'' \<and> prefix ''Bearer '' ''Bearer guess''
             \<and> index (split (CHR '' '') ''Bearer guess'') 1 \<noteq> DA_WRITETOKEN ?e"
    using a3 by (simp add: api_request_def)
  have same: "\<And>a. (api_request a level0_body)\<lparr>body_text := level0_body\<rparr>
                 = api_request a level0_body"
    by (simp add: api_request_def)
  have r1: "handleApi ?rt (api_request None level0_body) ?e fresh_world
       = (Inr (nack (JStr ''unknown'') ''UNAUTHORIZED'' unauthorized_text), fresh_world)"
    using handleApi_auth [of "api_request None level0_body" ?e fresh_world ?rt] a1 same
    by metis
  have r2: "handleApi ?rt (api_request (Some ''Basic dXNlcg=='') level0_body) ?e fresh_world
       = (Inr (nack (JStr ''unknown'') ''UNAUTHORIZED'' unauthorized_text), fresh_world)"
    using handleApi_auth [of "api_request (Some ''Basic dXNlcg=='') level0_body" ?e fresh_world ?rt]
      a2' same by metis
  have r3: "handleApi ?rt (api_request (Some ''Bearer guess'') level0_body) ?e fresh_world
       = (Inr (nack (JStr ''unknown'') ''INVALID_TOKEN'' ''Token authentication failed''),
          fresh_world)"
    using handleApi_auth [of "api_request (Some ''Bearer guess'') level0_body" ?e fresh_world ?rt]
      a3' by blast
  have r4: "status (nack (JStr ''unknown'') ''INVALID_TOKEN'' ''Token authentication failed'') = 400"
    using handleApi_auth [of "api_request None level0_body" ?e fresh_world ?rt] by blast
  have a5: "headers (api_request (Some (''Bearer '' @ ''guess'' @ CHR '' '' # ''extra words''))
                        level0_body) ''Authorization''
               = Some (''Bearer '' @ ''guess'' @ CHR '' '' # ''extra words'')
             \<and> CHR '' '' \<notin> set ''guess'' \<and> Some ''guess'' \<noteq> DA_WRITETOKEN ?e"
    by (simp add: api_request_def demo_env_def)
  have r5: "handleApi ?rt
              (api_request (Some (''Bearer '' @ ''guess'' @ CHR '' '' # ''extra words'')) level0_body)
              ?e fresh_world
       = (Inr (nack (JStr ''unknown'') ''INVALID_TOKEN'' ''Token authentication failed''),
          fresh_world)"
    using handleApi_auth
            [of "api_request (Some (''Bearer '' @ ''guess'' @ CHR '' '' # ''extra words''))
                   level0_body" ?e fresh_world ?rt] a5
    by blast
  show ?thesis using a1 a2 a3 r1 r2 r3 r4 r5 by simp
qed



text \<open>
  Claim C7. A Direct API request that passes the bearer check and whose body parses to a
  payload with level 0 and truthy (so in particular non-empty string) service, instance and
  message is accepted: when the storage append returns, the response is the ack (status
  200) for the request id, and the only effect of the request is the one storage append,
  with level 0 bound as given. No send to the notification channel and no error log occur.
\<close>

theorem handleApi_level_zero:
  assumes "headers req ''Authorization'' = Some auth" and "prefix ''Bearer '' auth"
    and "index (split (CHR '' '') auth) 1 = DA_WRITETOKEN e"
    and "JSON_parse rt (JStr (body_text req)) = Inr b" and "\<not> nullish b"
    and "truthy (js_get (js_get b ''payload'') ''service'')"
    and "truthy (js_get (js_get b ''payload'') ''instance'')"
    and "js_get (js_get b ''payload'') ''level'' = JNum (Finite 0)"
    and "truthy (js_get (js_get b ''payload'') ''message'')"
    and "DB e = Some db"
    and "db (trace w) insert_sql (insert_args (js_get b ''payload'')) = None"
  shows "fst (handleApi rt req e w) =
           Inr (ack (if truthy (js_get b ''request_id'')
                     then js_get b ''request_id'' else JStr ''unknown''))
         \<and> status (ack (if truthy (js_get b ''request_id'')
                         then js_get b ''request_id'' else JStr ''unknown'')) = 200
         \<and> new_events w (snd (handleApi rt req e w)) =
             [DbRun insert_sql [js_get (js_get b ''payload'') ''service'',
                                js_get (js_get b ''payload'') ''instance'', JNum (Finite 0),
                                js_get (js_get b ''payload'') ''message'']]"
proof -
  let ?p = "js_get b ''payload''"
  let ?w1 = "w\<lparr>G_ENV := Some e, G_DB := env_DB e\<rparr>"
  let ?rid = "if truthy (js_get b ''request_id'') then js_get b ''request_id'' else JStr ''unknown''"
  have tp: "truthy ?p" using assms(9) by (cases ?p) simp_all
  have g: "G_DB ?w1 = DbObject db" using assms(10) by (simp add: env_DB_def)
  have d: "db (trace ?w1) insert_sql (insert_args ?p) = None" using assms(11) by simp
  have v: "valid_payload ?p" using assms(6-9) by (simp add: valid_payload_def)
  have low: "js_ge rt (js_get ?p ''level'') 3 = Some False" using assms(8) by (simp add: js_ge_def)
  have "handleApiRequest rt ?rid ?p ?w1 =
          (Inr (ack ?rid), emit (DbRun insert_sql (insert_args ?p)) ?w1)"
    using handleApiRequest_valid [OF v g, of rt ?rid] d low by simp
  then have "handleApi rt req e w =
          (Inr (ack ?rid),
           emit (DbRun insert_sql [js_get ?p ''service'', js_get ?p ''instance'',
                                   JNum (Finite 0), js_get ?p ''message'']) ?w1)"
    using handleApi_authorized [OF assms(1-5), of w] tp assms(8,9)
    by (simp add: Let_def insert_args_def)
  then show ?thesis by (simp add: ack_def jsonResponse_def new_events_def)
qed

theorem handleApi_level_zero_witness:
  "headers (api_request (Some ''Bearer s3cret'') level0_body) ''Authorization''
     = Some ''Bearer s3cret''
   \<and> index (split (CHR '' '') ''Bearer s3cret'') 1 = DA_WRITETOKEN (demo_env demo_db_ok)
   \<and> js_get (js_get level0_json ''payload'') ''level'' = JNum (Finite 0)
   \<and> fst (handleApi (demo_rt (parse_table [(level0_body, level0_json)]) None)
            (api_request (Some ''Bearer s3cret'') level0_body) (demo_env demo_db_ok) fresh_world)
       = Inr (ack (JStr ''r7''))
   \<and> trace (snd (handleApi (demo_rt (parse_table [(level0_body, level0_json)]) None)
            (api_request (Some ''Bearer s3cret'') level0_body) (demo_env demo_db_ok) fresh_world))
       = [DbRun insert_sql [JStr ''billing'', JStr ''eu-1'', JNum (Finite 0), JStr ''disk full'']]"
proof -
  let ?rt = "demo_rt (parse_table [(level0_body, level0_json)]) None"
  let ?req = "api_request (Some ''Bearer s3cret'') level0_body"
  have h1: "headers ?req ''Authorization'' = Some ''Bearer s3cret''"
    by (simp add: api_request_def)
  have h2: "prefix ''Bearer '' ''Bearer s3cret''" by simp
  have h3: "index (split (CHR '' '') ''Bearer s3cret'') 1 = DA_WRITETOKEN (demo_env demo_db_ok)"
    by (simp add: index_def demo_env_def)
  have h4: "JSON_parse ?rt (JStr (body_text ?req)) = Inr level0_json"
    by (simp add: demo_rt_def parse_table_def api_request_def)
  have h5: "\<not> nullish level0_json" by (simp add: level0_json_def)
  have h6: "truthy (js_get (js_get level0_json ''payload'') ''service'')"
      "truthy (js_get (js_get level0_json ''payload'') ''instance'')"
      "js_get (js_get level0_json ''payload'') ''level'' = JNum (Finite 0)"
      "truthy (js_get (js_get level0_json ''payload'') ''message'')"
    by (simp_all add: level0_json_def demo_payload_def)
  have h7: "DB (demo_env demo_db_ok) = Some demo_db_ok" by (simp add: demo_env_def)
  have h8: "demo_db_ok (trace fresh_world) insert_sql
              (insert_args (js_get level0_json ''payload'')) = None"
    by (simp add: demo_db_ok_def)
  from handleApi_level_zero [OF h1 h2 h3 h4 h5 h6 h7 h8]
  show ?thesis using h1 h3 h6(3)
    by (simp add: new_events_def fresh_world_def level0_json_def demo_payload_def)
qed

section \<open>Request router and webhook authentication\<close>

text \<open>
  Claim C9. A request whose method is not POST gets the plain-text 405 response with no
  effect, whatever its path, headers and body and whatever the runtime is (no auth check,
  no parsing). A POST to \<^verbatim>\<open>/api\<close> is handled by \<^verbatim>\<open>handleApi\<close>, a POST to \<^verbatim>\<open>/ably\<close> by
  \<^verbatim>\<open>handleAblyWebhook\<close>, and a POST to any other path gets the plain-text 404 response
  with no effect.
\<close>

theorem fetch_routes:
  "(req_method req \<noteq> ''POST'' \<longrightarrow>
      (\<forall>rt' p h t. fetch rt' (req\<lparr>pathname := p, headers := h, body_text := t\<rparr>) e w =
         (Inr \<lparr>body = Text ''Method Not Allowed'', status = 405, response_headers = []\<rparr>, w)))
   \<and> (req_method req = ''POST'' \<and> pathname req = ''/api'' \<longrightarrow>
        fetch rt req e w = handleApi rt req e w)
   \<and> (req_method req = ''POST'' \<and> pathname req = ''/ably'' \<longrightarrow>
        fetch rt req e w =
          (Inr (fst (handleAblyWebhook rt req e w)), snd (handleAblyWebhook rt req e w)))
   \<and> (req_method req = ''POST'' \<and> pathname req \<noteq> ''/api'' \<and> pathname req \<noteq> ''/ably'' \<longrightarrow>
        fetch rt req e w =
          (Inr \<lparr>body = Text ''Not Found'', status = 404, response_headers = []\<rparr>, w))"
  by (simp add: fetch_def plain_def split: prod.splits)

theorem fetch_routes_witness:
  "req_method get_request \<noteq> ''POST''
   \<and> fetch (demo_rt (parse_table [(level0_body, level0_json)]) None) get_request
         (demo_env demo_db_ok) fresh_world
       = (Inr \<lparr>body = Text ''Method Not Allowed'', status = 405, response_headers = []\<rparr>,
          fresh_world)
   \<and> fetch (demo_rt no_parse None) (api_request None level0_body) (demo_env demo_db_ok)
         fresh_world
       = handleApi (demo_rt no_parse None) (api_request None level0_body) (demo_env demo_db_ok)
           fresh_world
   \<and> fst (fetch (demo_rt no_parse None) (ably_request None batch_body) (demo_env demo_db_ok)
            fresh_world)
       = Inr (fst (handleAblyWebhook (demo_rt no_parse None) (ably_request None batch_body)
                (demo_env demo_db_ok) fresh_world))
   \<and> fetch (demo_rt no_parse None) ((api_request None level0_body)\<lparr>pathname := ''/logs''\<rparr>)
         (demo_env demo_db_ok) fresh_world
       = (Inr \<lparr>body = Text ''Not Found'', status = 404, response_headers = []\<rparr>, fresh_world)"
proof -
  let ?rt = "demo_rt no_parse None"
  let ?e = "demo_env demo_db_ok"
  have m: "req_method get_request \<noteq> ''POST''" by (simp add: get_request_def)
  have same: "get_request\<lparr>pathname := pathname get_request, headers := headers get_request,
                 body_text := body_text get_request\<rparr> = get_request"
    by simp
  have r1: "fetch (demo_rt (parse_table [(level0_body, level0_json)]) None) get_request ?e
              fresh_world
            = (Inr \<lparr>body = Text ''Method Not Allowed'', status = 405, response_headers = []\<rparr>,
               fresh_world)"
    using fetch_routes [of get_request ?e fresh_world ?rt] m same by metis
  have r2: "fetch ?rt (api_request None level0_body) ?e fresh_world
            = handleApi ?rt (api_request None level0_body) ?e fresh_world"
    using fetch_routes [of "api_request None level0_body" ?e fresh_world ?rt]
    by (simp add: api_request_def)
  have r3: "fst (fetch ?rt (ably_request None batch_body) ?e fresh_world)
            = Inr (fst (handleAblyWebhook ?rt (ably_request None batch_body) ?e fresh_world))"
    using fetch_routes [of "ably_request None batch_body" ?e fresh_world ?rt]
    by (simp add: ably_request_def)
  have r4: "fetch ?rt ((api_request None level0_body)\<lparr>pathname := ''/logs''\<rparr>) ?e fresh_world
            = (Inr \<lparr>body = Text ''Not Found'', status = 404, response_headers = []\<rparr>,
               fresh_world)"
    using fetch_routes [of "(api_request None level0_body)\<lparr>pathname := ''/logs''\<rparr>" ?e
                          fresh_world ?rt]
    by (simp add: api_request_def)
  show ?thesis using m r1 r2 r3 r4 by simp
qed

text \<open>
  Claim C6. When the \<^verbatim>\<open>X-Ably-Auth\<close> header is absent or differs from the configured
  webhook secret, the webhook handler answers with the plain-text response
  \<^verbatim>\<open>Unauthorized\<close>, status 401, which is no nack envelope, and its only effect is one
  line on the error console: no storage call.
\<close>

theorem handleAblyWebhook_unauthorized:
  assumes "headers req ''X-Ably-Auth'' = None
           \<or> headers req ''X-Ably-Auth'' \<noteq> ABLY_WEBHOOK_SECRET e"
  shows "fst (handleAblyWebhook rt req e w) =
           \<lparr>body = Text ''Unauthorized'', status = 401, response_headers = []\<rparr>
         \<and> (\<forall>requestId code msg. fst (handleAblyWebhook rt req e w) \<noteq> nack requestId code msg)
         \<and> new_events w (snd (handleAblyWebhook rt req e w)) =
             [ConsoleError (cross_mark @ '' Invalid Ably webhook secret'')]
         \<and> filter is_DbRun (new_events w (snd (handleAblyWebhook rt req e w))) = []"
proof -
  have "handleAblyWebhook rt req e w =
          (plain ''Unauthorized'' 401,
           emit (ConsoleError (cross_mark @ '' Invalid Ably webhook secret'')) w)"
    using assms by (auto simp add: handleAblyWebhook_def Let_def)
  then show ?thesis
    by (simp add: plain_def nack_def jsonResponse_def new_events_def)
qed

theorem handleAblyWebhook_unauthorized_witness:
  "headers (ably_request (Some ''guess'') batch_body) ''X-Ably-Auth''
     \<noteq> ABLY_WEBHOOK_SECRET (demo_env demo_db_ok)
   \<and> fst (handleAblyWebhook (demo_rt (parse_table [(batch_body, batch_json)]) None)
            (ably_request (Some ''guess'') batch_body) (demo_env demo_db_ok) fresh_world)
       = \<lparr>body = Text ''Unauthorized'', status = 401, response_headers = []\<rparr>
   \<and> trace (snd (handleAblyWebhook (demo_rt (parse_table [(batch_body, batch_json)]) None)
            (ably_request (Some ''guess'') batch_body) (demo_env demo_db_ok) fresh_world))
       = [ConsoleError (cross_mark @ '' Invalid Ably webhook secret'')]"
proof -
  have h: "headers (ably_request (Some ''guess'') batch_body) ''X-Ably-Auth''
             \<noteq> ABLY_WEBHOOK_SECRET (demo_env demo_db_ok)"
    by (simp add: ably_request_def demo_env_def)
  then have "headers (ably_request (Some ''guess'') batch_body) ''X-Ably-Auth'' = None
           \<or> headers (ably_request (Some ''guess'') batch_body) ''X-Ably-Auth''
               \<noteq> ABLY_WEBHOOK_SECRET (demo_env demo_db_ok)"
    by simp
  from handleAblyWebhook_unauthorized [OF this,
         of "demo_rt (parse_table [(batch_body, batch_json)]) None" fresh_world]
  show ?thesis using h by (simp add: new_events_def fresh_world_def)
qed

section \<open>The webhook loop\<close>

lemma ably_message_parse_error:
  "\<not> nullish msg \<Longrightarrow> truthy (js_get msg ''data'') \<Longrightarrow>
   JSON_parse rt (js_get msg ''data'') = Inl m \<Longrightarrow>
   ably_message rt msg w =
     Inr (errDelegate rt (cross_mark @ '' Could not parse message.data JSON: '' @ m) w)"
  by (simp add: ably_message_def)

lemma ably_message_pipeline:
  "\<not> nullish msg \<Longrightarrow> message_payload rt msg = Some p \<Longrightarrow>
   ably_message rt msg w =
     (case handleApiRequest rt (JStr ''unknow'') p w of
        (Inr r, w') \<Rightarrow> Inr w'
      | (Inl err, w') \<Rightarrow>
          Inr (errDelegate rt (''Ably webhook failed: '' @ message err)
                 (errDelegate rt (collision @ '' handleApiRequest failed: '' @ message err) w')))"
  by (auto simp add: ably_message_def message_payload_def Let_def
           split: if_splits sum.splits)

lemma ably_message_skip:
  "\<not> nullish msg \<Longrightarrow> message_payload rt msg = None \<Longrightarrow>
   (\<forall>m. JSON_parse rt (js_get msg ''data'') \<noteq> Inl m) \<or> \<not> truthy (js_get msg ''data'') \<Longrightarrow>
   ably_message rt msg w = Inr w"
  by (auto simp add: ably_message_def message_payload_def Let_def
           split: if_splits sum.splits)

lemma ably_message_returns:
  assumes "\<not> nullish msg"
  shows "\<exists>w'. ably_message rt msg w = Inr w' \<and> G_ENV w' = G_ENV w \<and> G_DB w' = G_DB w
           \<and> (\<exists>ex. trace w' = trace w @ ex
                \<and> (\<forall>db. G_DB w = DbObject db \<longrightarrow> filter is_DbRun ex = message_appends rt msg))"
proof (cases "message_payload rt msg")
  case None
  show ?thesis
  proof (cases "truthy (js_get msg ''data'')
                \<and> (\<exists>m. JSON_parse rt (js_get msg ''data'') = Inl m)")
    case True
    then obtain m where m: "JSON_parse rt (js_get msg ''data'') = Inl m"
      and t: "truthy (js_get msg ''data'')" by blast
    obtain ex where "trace (errDelegate rt (cross_mark @ '' Could not parse message.data JSON: '' @ m) w)
        = trace w @ ConsoleError (cross_mark @ '' Could not parse message.data JSON: '' @ m) # ex"
      "filter is_DbRun ex = []"
      using trace_errDelegate by blast
    then show ?thesis
      using None by (simp add: ably_message_parse_error [OF assms t m] message_appends_def)
  next
    case False
    then have "ably_message rt msg w = Inr w"
      using assms None by (intro ably_message_skip) auto
    then show ?thesis using None by (simp add: message_appends_def)
  qed
next
  case (Some p)
  obtain res w1 where run: "handleApiRequest rt (JStr ''unknow'') p w = (res, w1)"
    by (cases "handleApiRequest rt (JStr ''unknow'') p w")
  obtain ex where ex: "trace w1 = trace w @ ex"
      "\<forall>db. G_DB w = DbObject db \<longrightarrow>
           filter is_DbRun ex = (if valid_payload p then [DbRun insert_sql (insert_args p)] else [])"
    using trace_handleApiRequest [of rt "JStr ''unknow''" p w] run by auto
  have g: "G_ENV w1 = G_ENV w" "G_DB w1 = G_DB w"
    using globals_handleApiRequest [of rt "JStr ''unknow''" p w] run by simp_all
  show ?thesis
  proof (cases res)
    case (Inr r)
    then show ?thesis
      using ex g Some run by (simp add: ably_message_pipeline [OF assms Some] message_appends_def)
  next
    case (Inl err)
    let ?m1 = "collision @ '' handleApiRequest failed: '' @ message err"
    let ?m2 = "''Ably webhook failed: '' @ message err"
    obtain e1 where e1: "trace (errDelegate rt ?m1 w1) = trace w1 @ ConsoleError ?m1 # e1"
        "filter is_DbRun e1 = []"
      using trace_errDelegate by blast
    obtain e2 where e2: "trace (errDelegate rt ?m2 (errDelegate rt ?m1 w1))
          = trace (errDelegate rt ?m1 w1) @ ConsoleError ?m2 # e2"
        "filter is_DbRun e2 = []"
      using trace_errDelegate by blast
    show ?thesis
      using Inl ex g Some run e1 e2
      by (simp add: ably_message_pipeline [OF assms Some] message_appends_def)
  qed
qed

lemma ably_loop_returns:
  "\<forall>m\<in>set msgs. \<not> nullish m \<Longrightarrow>
   \<exists>w'. ably_loop rt msgs w = (Inr (), w') \<and> G_ENV w' = G_ENV w \<and> G_DB w' = G_DB w
     \<and> (\<exists>ex. trace w' = trace w @ ex
          \<and> (\<forall>db. G_DB w = DbObject db \<longrightarrow>
                filter is_DbRun ex = concat (map (message_appends rt) msgs)))"
proof (induction msgs arbitrary: w)
  case Nil
  then show ?case by simp
next
  case (Cons msg msgs)
  then have nn: "\<not> nullish msg" and rest: "\<forall>m\<in>set msgs. \<not> nullish m" by simp_all
  obtain w1 ex1 where w1: "ably_message rt msg w = Inr w1" "G_ENV w1 = G_ENV w" "G_DB w1 = G_DB w"
      "trace w1 = trace w @ ex1"
      "\<forall>db. G_DB w = DbObject db \<longrightarrow> filter is_DbRun ex1 = message_appends rt msg"
    using ably_message_returns [OF nn, of rt w] by blast
  obtain w2 ex2 where w2: "ably_loop rt msgs w1 = (Inr (), w2)" "G_ENV w2 = G_ENV w1"
      "G_DB w2 = G_DB w1" "trace w2 = trace w1 @ ex2"
      "\<forall>db. G_DB w1 = DbObject db \<longrightarrow> filter is_DbRun ex2 = concat (map (message_appends rt) msgs)"
    using Cons.IH [OF rest, of w1] by blast
  have "trace w2 = trace w @ (ex1 @ ex2)" using w1(4) w2(4) by simp
  moreover have "\<forall>db. G_DB w = DbObject db \<longrightarrow>
      filter is_DbRun (ex1 @ ex2) = concat (map (message_appends rt) (msg # msgs))"
    using w1(3,5) w2(5) by simp
  ultimately show ?case using w1(1,2,3) w2(1,2,3) by (simp del: append_assoc)
qed

lemma ably_loop_append:
  "ably_loop rt pre w = (Inr (), w1) \<Longrightarrow> ably_loop rt (pre @ post) w = ably_loop rt post w1"
  by (induction pre arbitrary: w) (auto split: sum.splits)

lemma handleAblyWebhook_batch:
  assumes "headers req ''X-Ably-Auth'' = Some secret" and "secret \<noteq> []"
    and "ABLY_WEBHOOK_SECRET e = Some secret"
    and "JSON_parse rt (JStr (body_text req)) = Inr b" and "\<not> nullish b"
    and "(if truthy (js_get b ''items'') then js_get b ''items'' else js_get b ''messages'')
           = JArr msgs"
  shows "handleAblyWebhook rt req e w =
     (case ably_loop rt msgs (w\<lparr>G_ENV := Some e, G_DB := env_DB e\<rparr>) of
        (Inr u, w') \<Rightarrow> (plain ''OK'' 200, w')
      | (Inl err, w') \<Rightarrow>
          (plain ''Internal Server Error'' 500,
           errDelegate rt (''Webhook error: '' @ message err) w'))"
  using assms by (simp add: handleAblyWebhook_def Let_def)

text \<open>
  Claim C8. For a webhook message that reaches the pipeline (its \<^verbatim>\<open>data\<close> is truthy and
  parses, and \<^verbatim>\<open>.payload\<close> of the result is a truthy object), the loop invokes the pipeline
  with the request id \<^verbatim>\<open>unknow\<close>, which is not \<^verbatim>\<open>unknown\<close>; a response the pipeline
  returns carries that id. When the pipeline throws, the exception is caught and reported
  by two calls of \<^verbatim>\<open>errDelegate\<close>, the first with the prefix
  \<^verbatim>\<open>handleApiRequest failed: \<close> after the collision symbol, the second with the prefix
  \<^verbatim>\<open>Ably webhook failed: \<close>, and the loop goes on with the next message. The two
  reports add exactly these effects: each logs its text and, with the channel configured,
  sends it once; they make no storage call, and log nothing else unless a send fails.
\<close>

theorem ably_message_pipeline_exception:
  assumes "\<not> nullish msg" and "truthy (js_get msg ''data'')"
    and "JSON_parse rt (js_get msg ''data'') = Inr msgpayload" and "\<not> nullish msgpayload"
    and "js_get msgpayload ''payload'' = payload" and "truthy payload"
    and "js_typeof payload = ''object''"
  shows "ably_message rt msg w =
           (case handleApiRequest rt (JStr ''unknow'') payload w of
              (Inr r, w') \<Rightarrow> Inr w'
            | (Inl err, w') \<Rightarrow>
                Inr (errDelegate rt (''Ably webhook failed: '' @ message err)
                       (errDelegate rt (collision @ '' handleApiRequest failed: '' @ message err)
                          w')))
         \<and> JStr ''unknow'' \<noteq> JStr ''unknown''
         \<and> (\<forall>r w'. handleApiRequest rt (JStr ''unknow'') payload w = (Inr r, w') \<longrightarrow>
                r = ack (JStr ''unknow'')
                \<or> r = nack (JStr ''unknow'') ''MissingField'' missing_fields_text)
         \<and> (\<forall>err w' msgs.
               handleApiRequest rt (JStr ''unknow'') payload w = (Inl err, w') \<longrightarrow>
                 ably_loop rt (msg # msgs) w =
                   ably_loop rt msgs
                     (errDelegate rt (''Ably webhook failed: '' @ message err)
                        (errDelegate rt (collision @ '' handleApiRequest failed: '' @ message err)
                           w'))
                 \<and> (\<exists>t1 t2.
                       new_events w'
                         (errDelegate rt (''Ably webhook failed: '' @ message err)
                            (errDelegate rt
                               (collision @ '' handleApiRequest failed: '' @ message err) w'))
                         = ConsoleError (collision @ '' handleApiRequest failed: '' @ message err)
                             # t1 @ ConsoleError (''Ably webhook failed: '' @ message err) # t2
                       \<and> filter is_DbRun (t1 @ t2) = []
                       \<and> (\<forall>botToken chatId. configured w botToken chatId \<longrightarrow>
                             filter is_Fetch t1 =
                               [Fetch (sendMessage_url botToken)
                                  (sendMessage_body chatId
                                     (error_text (collision @ '' handleApiRequest failed: ''
                                                    @ message err)))]
                             \<and> filter is_Fetch t2 =
                               [Fetch (sendMessage_url botToken)
                                  (sendMessage_body chatId
                                     (error_text (''Ably webhook failed: '' @ message err)))])
                       \<and> ((\<forall>tr u b. global_fetch rt tr u b = None) \<longrightarrow>
                             filter is_ConsoleError (t1 @ t2) = [])))"
proof -
  have mp: "message_payload rt msg = Some payload"
    using assms by (simp add: message_payload_def)
  note step = ably_message_pipeline [OF assms(1) mp]
  have id: "\<forall>r w'. handleApiRequest rt (JStr ''unknow'') payload w = (Inr r, w') \<longrightarrow>
                r = ack (JStr ''unknow'')
                \<or> r = nack (JStr ''unknow'') ''MissingField'' missing_fields_text"
    by (blast dest: handleApiRequest_response)
  have exc: "ably_loop rt (msg # msgs) w =
               ably_loop rt msgs
                 (errDelegate rt (''Ably webhook failed: '' @ message err)
                    (errDelegate rt (collision @ '' handleApiRequest failed: '' @ message err) w'))
             \<and> (\<exists>t1 t2.
                   new_events w'
                     (errDelegate rt (''Ably webhook failed: '' @ message err)
                        (errDelegate rt (collision @ '' handleApiRequest failed: '' @ message err) w'))
                     = ConsoleError (collision @ '' handleApiRequest failed: '' @ message err)
                         # t1 @ ConsoleError (''Ably webhook failed: '' @ message err) # t2
                   \<and> filter is_DbRun (t1 @ t2) = []
                   \<and> (\<forall>botToken chatId. configured w botToken chatId \<longrightarrow>
                         filter is_Fetch t1 =
                           [Fetch (sendMessage_url botToken)
                              (sendMessage_body chatId
                                 (error_text (collision @ '' handleApiRequest failed: ''
                                                @ message err)))]
                         \<and> filter is_Fetch t2 =
                           [Fetch (sendMessage_url botToken)
                              (sendMessage_body chatId
                                 (error_text (''Ably webhook failed: '' @ message err)))])
                   \<and> ((\<forall>tr u b. global_fetch rt tr u b = None) \<longrightarrow>
                         filter is_ConsoleError (t1 @ t2) = []))"
    if run: "handleApiRequest rt (JStr ''unknow'') payload w = (Inl err, w')" for err w' msgs
  proof -
    let ?m1 = "collision @ '' handleApiRequest failed: '' @ message err"
    let ?m2 = "''Ably webhook failed: '' @ message err"
    let ?w1 = "errDelegate rt ?m1 w'"
    have genv: "G_ENV w' = G_ENV w"
      using globals_handleApiRequest(1) [of rt "JStr ''unknow''" payload w] run by simp
    have c1: "configured w' b c = configured w b c" for b c
      using genv by (rule configured_cong)
    have c2: "configured ?w1 b c = configured w b c" for b c
      using genv by (simp add: configured_def)
    obtain t1 where t1: "trace ?w1 = trace w' @ ConsoleError ?m1 # t1" "filter is_DbRun t1 = []"
        "\<forall>botToken chatId. configured w' botToken chatId \<longrightarrow>
           filter is_Fetch t1 = [Fetch (sendMessage_url botToken)
                                   (sendMessage_body chatId (error_text ?m1))]"
        "(\<forall>tr u b. global_fetch rt tr u b = None) \<longrightarrow> filter is_ConsoleError t1 = []"
      using trace_errDelegate [of rt ?m1 w'] by blast
    obtain t2 where t2: "trace (errDelegate rt ?m2 ?w1) = trace ?w1 @ ConsoleError ?m2 # t2"
        "filter is_DbRun t2 = []"
        "\<forall>botToken chatId. configured ?w1 botToken chatId \<longrightarrow>
           filter is_Fetch t2 = [Fetch (sendMessage_url botToken)
                                   (sendMessage_body chatId (error_text ?m2))]"
        "(\<forall>tr u b. global_fetch rt tr u b = None) \<longrightarrow> filter is_ConsoleError t2 = []"
      using trace_errDelegate [of rt ?m2 ?w1] by blast
    have loop: "ably_loop rt (msg # msgs) w = ably_loop rt msgs (errDelegate rt ?m2 ?w1)"
      using step [of w] run by simp
    have ev: "new_events w' (errDelegate rt ?m2 ?w1) = ConsoleError ?m1 # t1 @ ConsoleError ?m2 # t2"
      using t1(1) t2(1) by (simp add: new_events_def)
    show ?thesis
      using loop ev t1(2-4) t2(2-4) c1 c2 by (intro conjI exI [of _ t1] exI [of _ t2]) auto
  qed
  show ?thesis using step id exc by simp
qed

theorem ably_message_pipeline_exception_witness:
  "handleApiRequest
     (demo_rt (parse_table [(good2_data, good2_json), (good5_data, good5_json)]) None)
     (JStr ''unknow'') (demo_payload (JNum (Finite 2))) (demo_world demo_db_first_fails)
   = (Inl (Error ''D1_ERROR: Network connection lost.''),
      emit (DbRun insert_sql (insert_args (demo_payload (JNum (Finite 2)))))
        (demo_world demo_db_first_fails))
   \<and> fst (ably_loop
            (demo_rt (parse_table [(good2_data, good2_json), (good5_data, good5_json)]) None)
            [JObj [(''data'', JStr good2_data)], JObj [(''data'', JStr good5_data)]]
            (demo_world demo_db_first_fails))
       = Inr ()
   \<and> trace (snd (ably_loop
            (demo_rt (parse_table [(good2_data, good2_json), (good5_data, good5_json)]) None)
            [JObj [(''data'', JStr good2_data)], JObj [(''data'', JStr good5_data)]]
            (demo_world demo_db_first_fails)))
       = [DbRun insert_sql [JStr ''billing'', JStr ''eu-1'', JNum (Finite 2), JStr ''disk full''],
          ConsoleError (collision
                          @ '' handleApiRequest failed: D1_ERROR: Network connection lost.''),
          Fetch (sendMessage_url ''bot1'')
            (sendMessage_body ''42''
               (error_text (collision
                  @ '' handleApiRequest failed: D1_ERROR: Network connection lost.''))),
          ConsoleError ''Ably webhook failed: D1_ERROR: Network connection lost.'',
          Fetch (sendMessage_url ''bot1'')
            (sendMessage_body ''42''
               (error_text ''Ably webhook failed: D1_ERROR: Network connection lost.'')),
          DbRun insert_sql [JStr ''billing'', JStr ''eu-1'', JNum (Finite 5), JStr ''disk full''],
          Fetch (sendMessage_url ''bot1'')
            (sendMessage_body ''42''
               (''disk full'' @ nl @ nl @ puzzle_piece @ '' billing/eu-1'' @ nl @ input_numbers
                  @ '' Level: 5''))]"
proof -
  let ?rt = "demo_rt (parse_table [(good2_data, good2_json), (good5_data, good5_json)]) None"
  let ?w = "demo_world demo_db_first_fails"
  let ?m2 = "JObj [(''data'', JStr good2_data)]"
  let ?m5 = "JObj [(''data'', JStr good5_data)]"
  let ?p = "demo_payload (JNum (Finite 2))"
  have h: "\<not> nullish ?m2" "truthy (js_get ?m2 ''data'')"
      "JSON_parse ?rt (js_get ?m2 ''data'') = Inr good2_json" "\<not> nullish good2_json"
      "js_get good2_json ''payload'' = ?p" "truthy ?p" "js_typeof ?p = ''object''"
    by (simp_all add: demo_rt_def parse_table_def good2_data_def good2_json_def demo_payload_def)
  have run: "handleApiRequest ?rt (JStr ''unknow'') ?p ?w
               = (Inl (Error ''D1_ERROR: Network connection lost.''),
                  emit (DbRun insert_sql (insert_args ?p)) ?w)"
    by (simp add: handleApiRequest_def demo_payload_def demo_world_def demo_db_first_fails_def
          insert_args_def Let_def)
  from ably_message_pipeline_exception [OF h, of ?w] run
  have loop: "ably_loop ?rt [?m2, ?m5] ?w =
                ably_loop ?rt [?m5]
                  (errDelegate ?rt (''Ably webhook failed: '' @ message (Error ''D1_ERROR: Network connection lost.''))
                     (errDelegate ?rt
                        (collision @ '' handleApiRequest failed: ''
                           @ message (Error ''D1_ERROR: Network connection lost.''))
                        (emit (DbRun insert_sql (insert_args ?p)) ?w)))"
    by blast
  show ?thesis
    unfolding loop
    by (simp add: run)
       (simp add: handler_defs demo_defs model_defs batch_defs demo_db_first_fails_def
          parse_table_def Let_def)
qed

text \<open>
  Claim C3 as stated fails. Given a payload without level, the pipeline returns a nack, it
  does not throw; and a webhook batch whose one message carries that payload is answered
  with \<^verbatim>\<open>OK\<close>, status 200, with no effect at all: nothing has been logged or sent to
  the notification channel.
\<close>

theorem webhook_missing_field_counterexample:
  "fst (handleApiRequest (demo_rt no_parse None) (JStr ''unknow'') no_level_payload
          (demo_world demo_db_ok))
     = Inr (nack (JStr ''unknow'') ''MissingField'' missing_fields_text)
   \<and> fst (handleAblyWebhook
            (demo_rt (parse_table [(no_level_batch_body, no_level_batch_json),
                                   (no_level_body, no_level_json)]) None)
            (ably_request (Some ''hook-secret'') no_level_batch_body) (demo_env demo_db_ok)
            fresh_world)
       = \<lparr>body = Text ''OK'', status = 200, response_headers = []\<rparr>
   \<and> trace (snd (handleAblyWebhook
            (demo_rt (parse_table [(no_level_batch_body, no_level_batch_json),
                                   (no_level_body, no_level_json)]) None)
            (ably_request (Some ''hook-secret'') no_level_batch_body) (demo_env demo_db_ok)
            fresh_world))
       = []"
  by (simp add: handler_defs demo_defs ably_request_def parse_table_def no_level_body_def
        no_level_batch_body_def no_level_batch_json_def no_level_json_def no_level_payload_def
        valid_payload_def Let_def)

text \<open>
  Claim C3, as amended. Invoked with a non-null payload in which service, instance or
  message is falsy (absent in particular) or level is absent, the pipeline does not raise:
  it returns the nack with code \<^verbatim>\<open>MissingField\<close> for the given request id and has no
  effect. On the webhook path the loop drops that nack: a message carrying such a payload
  leaves the world as it was (nothing is logged, nothing is sent to the notification
  channel, no storage call), and the loop goes on with the next message.
\<close>

theorem handleApiRequest_missing_field_returns_nack:
  assumes "\<not> nullish payload"
    and "\<not> truthy (js_get payload ''service'') \<or> \<not> truthy (js_get payload ''instance'')
         \<or> js_get payload ''level'' = JUndefined \<or> \<not> truthy (js_get payload ''message'')"
  shows "handleApiRequest rt requestId payload w =
           (Inr (nack requestId ''MissingField'' missing_fields_text), w)
         \<and> (\<forall>msg msgs msgpayload.
               \<not> nullish msg \<and> truthy (js_get msg ''data'')
               \<and> JSON_parse rt (js_get msg ''data'') = Inr msgpayload \<and> \<not> nullish msgpayload
               \<and> js_get msgpayload ''payload'' = payload \<and> truthy payload
               \<and> js_typeof payload = ''object''
             \<longrightarrow> ably_message rt msg w = Inr w
                 \<and> ably_loop rt (msg # msgs) w = ably_loop rt msgs w)"
proof -
  have inv: "\<not> valid_payload payload" using assms(2) by (auto simp add: valid_payload_def)
  have run: "\<And>rid. handleApiRequest rt rid payload w =
                 (Inr (nack rid ''MissingField'' missing_fields_text), w)"
    using assms(1) inv by (rule handleApiRequest_invalid)
  have "ably_message rt msg w = Inr w"
    if "\<not> nullish msg" "truthy (js_get msg ''data'')"
       "JSON_parse rt (js_get msg ''data'') = Inr msgpayload" "\<not> nullish msgpayload"
       "js_get msgpayload ''payload'' = payload" "truthy payload" "js_typeof payload = ''object''"
    for msg msgpayload
  proof -
    have "message_payload rt msg = Some payload"
      using that by (simp add: message_payload_def)
    then show ?thesis
      using that(1) by (simp add: ably_message_pipeline run)
  qed
  then show ?thesis using run by simp
qed

theorem handleApiRequest_missing_field_returns_nack_witness:
  "\<not> nullish no_level_payload
   \<and> js_get no_level_payload ''level'' = JUndefined
   \<and> handleApiRequest (demo_rt (parse_table [(no_level_body, no_level_json)]) None)
         (JStr ''unknow'') no_level_payload (demo_world demo_db_ok)
       = (Inr (nack (JStr ''unknow'') ''MissingField'' missing_fields_text),
          demo_world demo_db_ok)
   \<and> ably_loop (demo_rt (parse_table [(no_level_body, no_level_json)]) None)
         [JObj [(''data'', JStr no_level_body)]] (demo_world demo_db_ok)
       = (Inr (), demo_world demo_db_ok)"
proof -
  let ?rt = "demo_rt (parse_table [(no_level_body, no_level_json)]) None"
  let ?msg = "JObj [(''data'', JStr no_level_body)]"
  have h1: "\<not> nullish no_level_payload" by (simp add: no_level_payload_def)
  have lvl: "js_get no_level_payload ''level'' = JUndefined" by (simp add: no_level_payload_def)
  then have h2: "\<not> truthy (js_get no_level_payload ''service'')
         \<or> \<not> truthy (js_get no_level_payload ''instance'')
         \<or> js_get no_level_payload ''level'' = JUndefined
         \<or> \<not> truthy (js_get no_level_payload ''message'')"
    by simp
  note inst = handleApiRequest_missing_field_returns_nack
               [OF h1 h2, of ?rt "JStr ''unknow''" "demo_world demo_db_ok"]
  have msg: "\<not> nullish ?msg \<and> truthy (js_get ?msg ''data'')
             \<and> JSON_parse ?rt (js_get ?msg ''data'') = Inr no_level_json
             \<and> \<not> nullish no_level_json
             \<and> js_get no_level_json ''payload'' = no_level_payload \<and> truthy no_level_payload
             \<and> js_typeof no_level_payload = ''object''"
    by (simp add: demo_rt_def parse_table_def no_level_body_def no_level_json_def
          no_level_payload_def)
  have "ably_loop ?rt [?msg] (demo_world demo_db_ok) = ably_loop ?rt [] (demo_world demo_db_ok)"
    using inst msg by blast
  then show ?thesis using h1 lvl inst by simp
qed

text \<open>
  Claim C4 as stated fails on two batches. In the first, the only message has the empty
  string as \<^verbatim>\<open>data\<close>: it does not parse as JSON, but the handler skips it before parsing
  and reports nothing. In the second, a \<^verbatim>\<open>null\<close> element follows the message with the
  unparseable \<^verbatim>\<open>data\<close>: reading its \<^verbatim>\<open>data\<close> throws, the handler answers 500, and the
  valid message after it is never handed to the pipeline (no storage call).
\<close>

theorem handleAblyWebhook_parse_error_counterexample:
  "JSON_parse (demo_rt (parse_table [(empty_data_body, empty_data_json)]) None) (JStr [])
     = Inl ''Unexpected end of JSON input''
   \<and> fst (handleAblyWebhook (demo_rt (parse_table [(empty_data_body, empty_data_json)]) None)
            (ably_request (Some ''hook-secret'') empty_data_body) (demo_env demo_db_ok)
            fresh_world)
       = \<lparr>body = Text ''OK'', status = 200, response_headers = []\<rparr>
   \<and> trace (snd (handleAblyWebhook
                   (demo_rt (parse_table [(empty_data_body, empty_data_json)]) None)
                   (ably_request (Some ''hook-secret'') empty_data_body) (demo_env demo_db_ok)
                   fresh_world))
       = []
   \<and> fst (handleAblyWebhook
            (demo_rt (parse_table [(null_element_body, null_element_json),
                                   (good2_data, good2_json)]) None)
            (ably_request (Some ''hook-secret'') null_element_body) (demo_env demo_db_ok)
            fresh_world)
       = \<lparr>body = Text ''Internal Server Error'', status = 500, response_headers = []\<rparr>
   \<and> trace (snd (handleAblyWebhook
            (demo_rt (parse_table [(null_element_body, null_element_json),
                                   (good2_data, good2_json)]) None)
            (ably_request (Some ''hook-secret'') null_element_body) (demo_env demo_db_ok)
            fresh_world))
       = [ConsoleError (cross_mark @ '' Could not parse message.data JSON: Unexpected token''),
          Fetch (sendMessage_url ''bot1'')
            (sendMessage_body ''42''
               (error_text (cross_mark @ '' Could not parse message.data JSON: Unexpected token''))),
          ConsoleError (''Webhook error: Cannot read properties of null (reading ''
                          @ [CHR 0x27] @ ''data'' @ [CHR 0x27] @ '')''),
          Fetch (sendMessage_url ''bot1'')
            (sendMessage_body ''42''
               (error_text (''Webhook error: Cannot read properties of null (reading ''
                              @ [CHR 0x27] @ ''data'' @ [CHR 0x27] @ '')'')))]"
  by (simp add: handler_defs demo_defs model_defs batch_defs ably_request_def parse_table_def
        empty_data_body_def null_element_body_def cross_mark_def nl_def Let_def)

text \<open>
  Claim C4, as amended. For an authenticated webhook request whose body parses to a batch
  (the array under \<^verbatim>\<open>items\<close>, or else under \<^verbatim>\<open>messages\<close>) with no \<^verbatim>\<open>null\<close> element, in
  which one message has as \<^verbatim>\<open>data\<close> a non-empty string that fails to parse as JSON: the
  handler answers plain-text \<^verbatim>\<open>OK\<close> with status 200; it handles the messages before that
  one in array order, then reports the parse error with \<^verbatim>\<open>errDelegate\<close> (so the error
  text is on the console among the effects of the request), then handles the messages
  after it in array order; and with a storage binding configured, the storage appends of
  the request are exactly those of the valid messages before and after it, in array order.
\<close>

theorem handleAblyWebhook_parse_error_continues:
  assumes "headers req ''X-Ably-Auth'' = Some secret" and "secret \<noteq> []"
    and "ABLY_WEBHOOK_SECRET e = Some secret"
    and "JSON_parse rt (JStr (body_text req)) = Inr b" and "\<not> nullish b"
    and "(if truthy (js_get b ''items'') then js_get b ''items'' else js_get b ''messages'')
           = JArr (pre @ bad # post)"
    and "\<forall>m\<in>set (pre @ bad # post). \<not> nullish m"
    and "js_get bad ''data'' = JStr s" and "s \<noteq> []"
    and "JSON_parse rt (JStr s) = Inl m"
  shows "fst (handleAblyWebhook rt req e w) =
           \<lparr>body = Text ''OK'', status = 200, response_headers = []\<rparr>
         \<and> snd (handleAblyWebhook rt req e w) =
             snd (ably_loop rt post
                    (errDelegate rt (cross_mark @ '' Could not parse message.data JSON: '' @ m)
                       (snd (ably_loop rt pre (w\<lparr>G_ENV := Some e, G_DB := env_DB e\<rparr>)))))
         \<and> ConsoleError (cross_mark @ '' Could not parse message.data JSON: '' @ m)
               \<in> set (new_events w (snd (handleAblyWebhook rt req e w)))
         \<and> (\<forall>db. DB e = Some db \<longrightarrow>
               filter is_DbRun (new_events w (snd (handleAblyWebhook rt req e w))) =
                 concat (map (message_appends rt) pre) @ concat (map (message_appends rt) post))"
proof -
  let ?w0 = "w\<lparr>G_ENV := Some e, G_DB := env_DB e\<rparr>"
  let ?t = "cross_mark @ '' Could not parse message.data JSON: '' @ m"
  have nn_pre: "\<forall>m\<in>set pre. \<not> nullish m" and nn_bad: "\<not> nullish bad"
    and nn_post: "\<forall>m\<in>set post. \<not> nullish m"
    using assms(7) by simp_all
  have data: "truthy (js_get bad ''data'')" using assms(8,9) by simp
  have perr: "JSON_parse rt (js_get bad ''data'') = Inl m" using assms(8,10) by simp
  have none: "message_appends rt bad = []"
    using data perr by (simp add: message_appends_def message_payload_def)
  obtain w1 ex1 where w1: "ably_loop rt pre ?w0 = (Inr (), w1)" "G_DB w1 = G_DB ?w0"
      "trace w1 = trace ?w0 @ ex1"
      "\<forall>db. G_DB ?w0 = DbObject db \<longrightarrow> filter is_DbRun ex1 = concat (map (message_appends rt) pre)"
    using ably_loop_returns [OF nn_pre, of rt ?w0] by blast
  let ?w2 = "errDelegate rt ?t w1"
  obtain ex2 where w2: "trace ?w2 = trace w1 @ ConsoleError ?t # ex2" "filter is_DbRun ex2 = []"
    using trace_errDelegate [of rt ?t w1] by blast
  obtain w3 ex3 where w3: "ably_loop rt post ?w2 = (Inr (), w3)"
      "trace w3 = trace ?w2 @ ex3"
      "\<forall>db. G_DB ?w2 = DbObject db \<longrightarrow> filter is_DbRun ex3 = concat (map (message_appends rt) post)"
    using ably_loop_returns [OF nn_post, of rt ?w2] by blast
  have step: "ably_loop rt (bad # post) w1 = ably_loop rt post ?w2"
    by (simp add: ably_message_parse_error [OF nn_bad data perr])
  have loop: "ably_loop rt (pre @ bad # post) ?w0 = (Inr (), w3)"
    using ably_loop_append [OF w1(1), of "bad # post"] step w3(1) by simp
  have run: "handleAblyWebhook rt req e w = (plain ''OK'' 200, w3)"
    using handleAblyWebhook_batch [OF assms(1-6), of w] loop by simp
  have tr: "trace w3 = trace w @ (ex1 @ ConsoleError ?t # ex2 @ ex3)"
    using w1(3) w2(1) w3(2) by simp
  have ev: "new_events w w3 = ex1 @ ConsoleError ?t # ex2 @ ex3"
    using tr by (rule new_events_append)
  have db: "filter is_DbRun (new_events w w3) =
              concat (map (message_appends rt) pre) @ concat (map (message_appends rt) post)"
    if "DB e = Some db" for db
  proof -
    have "G_DB ?w0 = DbObject db" using that by (simp add: env_DB_def)
    moreover from this have "G_DB ?w2 = DbObject db" using w1(2) by simp
    ultimately show ?thesis using ev w1(4) w2(2) w3(3) by simp
  qed
  show ?thesis
    using run ev db w1(1) w3(1) by (simp add: plain_def)
qed

theorem handleAblyWebhook_parse_error_continues_witness:
  "js_get (JObj [(''data'', JStr bad_data)]) ''data'' = JStr bad_data
   \<and> bad_data \<noteq> []
   \<and> JSON_parse (demo_rt (parse_table [(batch_body, batch_json), (good2_data, good2_json),
                                         (good5_data, good5_json)]) None) (JStr bad_data)
       = Inl ''Unexpected token''
   \<and> fst (handleAblyWebhook
            (demo_rt (parse_table [(batch_body, batch_json), (good2_data, good2_json),
                                   (good5_data, good5_json)]) None)
            (ably_request (Some ''hook-secret'') batch_body) (demo_env demo_db_ok) fresh_world)
       = \<lparr>body = Text ''OK'', status = 200, response_headers = []\<rparr>
   \<and> ConsoleError (cross_mark @ '' Could not parse message.data JSON: Unexpected token'')
       \<in> set (new_events fresh_world
                (snd (handleAblyWebhook
                        (demo_rt (parse_table [(batch_body, batch_json), (good2_data, good2_json),
                                               (good5_data, good5_json)]) None)
                        (ably_request (Some ''hook-secret'') batch_body) (demo_env demo_db_ok)
                        fresh_world)))
   \<and> filter is_DbRun
         (new_events fresh_world
            (snd (handleAblyWebhook
                    (demo_rt (parse_table [(batch_body, batch_json), (good2_data, good2_json),
                                           (good5_data, good5_json)]) None)
                    (ably_request (Some ''hook-secret'') batch_body) (demo_env demo_db_ok)
                    fresh_world)))
       = [DbRun insert_sql [JStr ''billing'', JStr ''eu-1'', JNum (Finite 2), JStr ''disk full''],
          DbRun insert_sql [JStr ''billing'', JStr ''eu-1'', JNum (Finite 5), JStr ''disk full'']]"
proof -
  let ?rt = "demo_rt (parse_table [(batch_body, batch_json), (good2_data, good2_json),
                                   (good5_data, good5_json)]) None"
  let ?req = "ably_request (Some ''hook-secret'') batch_body"
  let ?e = "demo_env demo_db_ok"
  let ?m2 = "JObj [(''data'', JStr good2_data)]"
  let ?bad = "JObj [(''data'', JStr bad_data)]"
  let ?m5 = "JObj [(''data'', JStr good5_data)]"
  have h1: "headers ?req ''X-Ably-Auth'' = Some ''hook-secret''" by (simp add: ably_request_def)
  have h2: "''hook-secret'' \<noteq> []" by simp
  have h3: "ABLY_WEBHOOK_SECRET ?e = Some ''hook-secret''" by (simp add: demo_env_def)
  have h4: "JSON_parse ?rt (JStr (body_text ?req)) = Inr batch_json"
    by (simp add: demo_rt_def parse_table_def ably_request_def)
  have h5: "\<not> nullish batch_json" by (simp add: batch_json_def)
  have h6: "(if truthy (js_get batch_json ''items'') then js_get batch_json ''items''
             else js_get batch_json ''messages'') = JArr ([?m2] @ ?bad # [?m5])"
    by (simp add: batch_json_def)
  have h7: "\<forall>m\<in>set ([?m2] @ ?bad # [?m5]). \<not> nullish m" by simp
  have h8: "js_get ?bad ''data'' = JStr bad_data" by simp
  have h9: "bad_data \<noteq> []" by (simp add: bad_data_def)
  have h10: "JSON_parse ?rt (JStr bad_data) = Inl ''Unexpected token''"
    by (simp add: demo_rt_def parse_table_def batch_body_def good2_data_def good5_data_def
          bad_data_def)
  have db: "DB ?e = Some demo_db_ok" by (simp add: demo_env_def)
  have a2: "message_appends ?rt ?m2 =
              [DbRun insert_sql [JStr ''billing'', JStr ''eu-1'', JNum (Finite 2), JStr ''disk full'']]"
    by (simp add: message_appends_def message_payload_def demo_rt_def parse_table_def
          batch_body_def good2_data_def good2_json_def demo_payload_def valid_payload_def
          insert_args_def)
  have a5: "message_appends ?rt ?m5 =
              [DbRun insert_sql [JStr ''billing'', JStr ''eu-1'', JNum (Finite 5), JStr ''disk full'']]"
    by (simp add: message_appends_def message_payload_def demo_rt_def parse_table_def
          batch_body_def good2_data_def good5_data_def good5_json_def demo_payload_def
          valid_payload_def insert_args_def)
  note inst = handleAblyWebhook_parse_error_continues
                [OF h1 h2 h3 h4 h5 h6 h7 h8 h9 h10, of fresh_world]
  note r1 = inst [THEN conjunct1]
  note r3 = inst [THEN conjunct2, THEN conjunct2, THEN conjunct1]
  note r4 = inst [THEN conjunct2, THEN conjunct2, THEN conjunct2, rule_format, OF db]
  show ?thesis using h8 h9 h10 r1 r3 r4 a2 a5 by simp
qed

end
